theory Spec2Isabelle
  imports Complex_Main "HOL-Library.Multiset" "HOL-Library.Log_Nat"
begin

section \<open>Austin 911 dashboard: data model\<close>

text \<open>
  The dashboard (\<^verbatim>\<open>austin_911_dashboard.py\<close>) loads three artifacts, aggregates the
  call records by council district and renders two tabs.  Tables are lists of rows in
  file order.  A cell of the \<^verbatim>\<open>response_time_sec\<close> column, the column the summary counts,
  may be empty (\<open>None\<close>, the NaN of pandas); the other columns carry a value in every
  row.  A number is a rational.  In the District Summarizer, whose rounding to two
  decimals depends on it, the float64 operations of the source are modelled: every
  division and multiplication gives the double nearest to the exact result.  The
  district identifier is any totally ordered type (pandas sorts the group keys).
\<close>

record 'd call =
  council_district :: 'd
  response_time_sec :: "rat option"
  response_time_min :: rat
  delayed :: bool
  is_hotspot :: bool

text \<open>
  One row of the District Summary.  The columns are those assigned in lines 76--81 of the
  source; \<open>council_district_s\<close> and \<open>is_hotspot_s\<close> are the summary's
  \<^verbatim>\<open>council_district\<close> and \<^verbatim>\<open>is_hotspot\<close> columns.  The two statistics of
  \<^verbatim>\<open>response_time_sec\<close> are NaN (\<open>None\<close>) for a district without a single value in that
  column.
\<close>

record 'd summary_row =
  council_district_s :: 'd
  avg_response_sec :: "rat option"
  median_response_sec :: "rat option"
  total_calls :: nat
  avg_response_min :: rat
  total_delayed :: nat
  delay_rate :: rat
  is_hotspot_s :: bool
  delay_percentage :: rat

section \<open>Float64 arithmetic\<close>

text \<open>Rounding to the nearest integer, ties to the even one (\<^verbatim>\<open>rint\<close>).\<close>

definition round_half_even :: "rat \<Rightarrow> int" where
  "round_half_even x =
     (let f = \<lfloor>x\<rfloor>; d = x - of_int f
      in if d < 1 / 2 then f
         else if 1 / 2 < d then f + 1
         else if even f then f else f + 1)"

definition pow2 :: "int \<Rightarrow> rat" where
  "pow2 e = (if 0 \<le> e then 2 ^ nat e else 1 / 2 ^ nat (- e))"

text \<open>The binary exponent of a positive number: \<open>pow2 e \<le> x < pow2 (e + 1)\<close>.\<close>

definition exponent :: "rat \<Rightarrow> int" where
  "exponent x =
     (case quotient_of x of (p, q) \<Rightarrow>
        let d = bitlen p - bitlen q in if pow2 d \<le> x then d else d - 1)"

text \<open>
  The double nearest to a number, ties to the even mantissa: the number is scaled to a
  53-bit mantissa, rounded and scaled back.  The numbers of the dashboard are far from
  the overflow and underflow thresholds of the format, which are not modelled.
\<close>

definition fl :: "rat \<Rightarrow> rat" where
  "fl x =
     (if x = 0 then 0
      else let u = pow2 (exponent \<bar>x\<bar> - 52)
           in sgn x * of_int (round_half_even (\<bar>x\<bar> / u)) * u)"

text \<open>The float64 product, quotient and sum: the exact result, rounded once.\<close>

definition fmul :: "rat \<Rightarrow> rat \<Rightarrow> rat" where
  "fmul a b = fl (a * b)"

definition fdiv :: "rat \<Rightarrow> rat \<Rightarrow> rat" where
  "fdiv a b = fl (a / b)"

definition fadd :: "rat \<Rightarrow> rat \<Rightarrow> rat" where
  "fadd a b = fl (a + b)"

text \<open>
  \<^verbatim>\<open>.round(2)\<close> on a float column: numpy multiplies by 100.0, rounds to the nearest
  integer with ties to even, and divides by 100.0, each step in float64.
\<close>

definition round2 :: "rat \<Rightarrow> rat" where
  "round2 x = fdiv (of_int (round_half_even (fmul x 100))) 100"

section \<open>Series statistics\<close>

text \<open>
  The mean of a non-empty series by its exact formula.  On an empty series pandas yields
  NaN; every caller below decides emptiness before it calls this.
\<close>

definition mean :: "rat list \<Rightarrow> rat" where
  "mean xs = sum_list xs / of_nat (length xs)"

text \<open>\<^verbatim>\<open>Series.mean()\<close> as called from \<^verbatim>\<open>main\<close>: \<open>None\<close> is the NaN of an empty series.\<close>

definition series_mean :: "rat list \<Rightarrow> rat option" where
  "series_mean xs = (if xs = [] then None else Some (mean xs))"

text \<open>
  The mean of a non-empty group in the summarizer: the sum of the values divided by
  their number in float64.  The sum of the delayed flags is a whole number and exact;
  the sum of a float column is taken exactly here, where pandas accumulates it in
  float64 in an order of its own, and no theorem below rests on its last bit.
\<close>

definition group_mean :: "rat list \<Rightarrow> rat" where
  "group_mean xs = fdiv (sum_list xs) (of_nat (length xs))"

text \<open>
  The median of a non-empty group: the middle value of the sorted values, or the float64
  mean of the two middle values.
\<close>

definition median :: "rat list \<Rightarrow> rat" where
  "median xs =
     (let s = sort xs; n = length s
      in if odd n then s ! (n div 2)
         else fdiv (fadd (s ! (n div 2 - 1)) (s ! (n div 2))) 2)"

section \<open>District Summarizer\<close>

text \<open>
  \<^verbatim>\<open>df.groupby(key)\<close>: one group per distinct key, the keys in ascending order, the
  rows of a group in table order.
\<close>

definition groupby :: "('a \<Rightarrow> 'k::linorder) \<Rightarrow> 'a list \<Rightarrow> ('k \<times> 'a list) list" where
  "groupby key df = map (\<lambda>k. (k, filter (\<lambda>r. key r = k) df)) (sort (remdups (map key df)))"

text \<open>The values of a column that has empty cells: pandas skips the empty ones.\<close>

definition present :: "('a \<Rightarrow> rat option) \<Rightarrow> 'a list \<Rightarrow> rat list" where
  "present col rows = concat (map (\<lambda>r. case col r of None \<Rightarrow> [] | Some v \<Rightarrow> [v]) rows)"

text \<open>
  The aggregation of one group (lines 69--74) with the derived column of line 81:
  mean, median and count of \<^verbatim>\<open>response_time_sec\<close>, mean of \<^verbatim>\<open>response_time_min\<close>,
  sum and mean of \<^verbatim>\<open>delayed\<close>, first \<^verbatim>\<open>is_hotspot\<close>.  The mean and the median skip
  the empty cells of their column and are NaN when the group has none left; the count
  is the number of cells of \<^verbatim>\<open>response_time_sec\<close> that are not empty.  \<^verbatim>\<open>.round(2)\<close>
  rounds the float columns and leaves the integer counts and the boolean as they are.
  The group is \<open>r # rs\<close>, its first row and the others.
\<close>

definition district_row :: "'d \<Rightarrow> 'd call \<Rightarrow> 'd call list \<Rightarrow> 'd summary_row" where
  "district_row k r rs =
     (let rows = r # rs;
          secs = present response_time_sec rows;
          rate = round2 (group_mean (map (\<lambda>c. of_bool (delayed c)) rows))
      in \<lparr>council_district_s = k,
          avg_response_sec = (if secs = [] then None else Some (round2 (group_mean secs))),
          median_response_sec = (if secs = [] then None else Some (round2 (median secs))),
          total_calls = length secs,
          avg_response_min = round2 (group_mean (map response_time_min rows)),
          total_delayed = length (filter delayed rows),
          delay_rate = rate,
          is_hotspot_s = is_hotspot r,
          delay_percentage = fmul rate 100\<rparr>)"

text \<open>A group without rows gives no summary row (group-by semantics).\<close>

fun agg :: "'d \<times> 'd call list \<Rightarrow> 'd summary_row list" where
  "agg (k, []) = []"
| "agg (k, r # rs) = [district_row k r rs]"

definition create_district_summary :: "('d::linorder) call list \<Rightarrow> 'd summary_row list" where
  "create_district_summary df = concat (map agg (groupby council_district df))"

section \<open>Chart Builders\<close>

text \<open>
  \<^verbatim>\<open>DataFrame.sort_values(col)\<close>: the rows in ascending order of the column.  Rows with
  equal keys are kept in table order here; pandas promises no particular order for
  them, and nothing below depends on it.
\<close>

definition sort_values :: "('a \<Rightarrow> rat) \<Rightarrow> 'a list \<Rightarrow> 'a list" where
  "sort_values col df = sort_key col df"

text \<open>\<^verbatim>\<open>sort_values(col, ascending=False)\<close>.\<close>

definition sort_values_desc :: "('a \<Rightarrow> rat) \<Rightarrow> 'a list \<Rightarrow> 'a list" where
  "sort_values_desc col df = sort_key (\<lambda>r. - col r) df"

text \<open>\<^verbatim>\<open>color_discrete_map={True: '#d62728', False: '#1f77b4'}\<close>.\<close>

definition color_discrete_map :: "bool \<Rightarrow> string" where
  "color_discrete_map hot = (if hot then ''#d62728'' else ''#1f77b4'')"

record 'd bar =
  bar_x :: 'd
  bar_y :: rat

text \<open>One trace of a bar chart: the bars of one colour group.\<close>

record 'd trace =
  trace_name :: bool
  marker_color :: string
  trace_bars :: "'d bar list"

record 'd bar_figure =
  traces :: "'d trace list"
  bar_title :: string
  bar_labels :: "(string \<times> string) list"
  bar_height :: "nat option"
  showlegend :: "bool option"
  xaxis_title :: "string option"
  yaxis_title :: "string option"

text \<open>The distinct values of a list in the order of their first appearance.\<close>

definition uniq :: "'a list \<Rightarrow> 'a list" where
  "uniq xs = rev (remdups (rev xs))"

text \<open>
  \<^verbatim>\<open>px.bar(frame, x='council_district', y='avg_response_min', color='is_hotspot',
  color_discrete_map=...)\<close>: one trace for each value of \<^verbatim>\<open>is_hotspot\<close> in the frame, in the
  order in which the values first appear, drawn in the colour the map gives that
  value.  A trace holds one bar for each row of the frame with that value, in the
  frame's row order, at the row's district and of the row's \<^verbatim>\<open>avg_response_min\<close> as
  its height.
\<close>

definition px_bar :: "'d summary_row list \<Rightarrow> string \<Rightarrow> (string \<times> string) list \<Rightarrow> 'd bar_figure" where
  "px_bar frame title labels =
     \<lparr>traces =
        map (\<lambda>hot. \<lparr>trace_name = hot, marker_color = color_discrete_map hot,
                     trace_bars =
                       map (\<lambda>r. \<lparr>bar_x = council_district_s r, bar_y = avg_response_min r\<rparr>)
                         (filter (\<lambda>r. is_hotspot_s r = hot) frame)\<rparr>)
          (uniq (map is_hotspot_s frame)),
      bar_title = title,
      bar_labels = labels,
      bar_height = None,
      showlegend = None,
      xaxis_title = None,
      yaxis_title = None\<rparr>"

text \<open>
  The bars of a figure in the order of its data: trace after trace.  On a category axis
  (district identifiers that are strings) this is the order of the bars from left to
  right.
\<close>

definition bars_in_data_order :: "'d bar_figure \<Rightarrow> 'd bar list" where
  "bars_in_data_order fig = concat (map trace_bars (traces fig))"

text \<open>
  On a numeric axis (district identifiers that are numbers) a bar stands at its \<open>x\<close>
  value: from left to right the bars are in ascending order of the district.
\<close>

definition bars_by_position :: "('d::linorder) bar_figure \<Rightarrow> 'd bar list" where
  "bars_by_position fig = sort_key bar_x (bars_in_data_order fig)"

definition chart_labels :: "(string \<times> string) list" where
  "chart_labels =
     [(''council_district'', ''Council District''),
      (''avg_response_min'', ''Average Response Time (minutes)''),
      (''is_hotspot'', ''Hotspot Status'')]"

text \<open>
  \<^verbatim>\<open>load_austin_districts\<close> returns \<^verbatim>\<open>None\<close>; \<^verbatim>\<open>create_choropleth_map\<close> takes the value
  and does not read it.
\<close>

definition load_austin_districts :: "unit option" where
  "load_austin_districts = None"

definition create_choropleth_map :: "'d summary_row list \<Rightarrow> unit option \<Rightarrow> 'd bar_figure" where
  "create_choropleth_map district_summary austin_gdf =
     (px_bar (sort_values avg_response_min district_summary)
        ''Average Response Time by Council District (Hotspots in Red)'' chart_labels)
     \<lparr>bar_height := Some 600\<rparr>"

definition create_district_bar_chart :: "'d summary_row list \<Rightarrow> 'd bar_figure" where
  "create_district_bar_chart district_summary =
     (px_bar (sort_values avg_response_min district_summary)
        ''Average Response Time by Council District'' chart_labels)
     \<lparr>bar_height := Some 500, showlegend := Some True,
      xaxis_title := Some ''Council District'',
      yaxis_title := Some ''Average Response Time (minutes)''\<rparr>"

text \<open>One Anomaly Record: a (district, hour of day) slice flagged upstream.\<close>

record 'd anomaly =
  district :: 'd
  hour :: int
  delay_rate_a :: rat
  avg_response_min_a :: rat

record 'd pivot =
  pivot_index :: "'d list"
  pivot_columns :: "int list"
  pivot_values :: "rat list list"

text \<open>
  One cell of \<^verbatim>\<open>pivot_table(index='district', columns='hour', values='delay_rate',
  fill_value=0)\<close>: the mean (the default \<^verbatim>\<open>aggfunc\<close>) of the \<^verbatim>\<open>delay_rate\<close> values of
  the rows with that district and hour, and the fill value where there is no such row.
\<close>

definition pivot_cell :: "'d anomaly list \<Rightarrow> 'd \<Rightarrow> int \<Rightarrow> rat" where
  "pivot_cell df d h =
     (let vs = map delay_rate_a (filter (\<lambda>r. district r = d \<and> hour r = h) df)
      in if vs = [] then 0 else mean vs)"

definition pivot_table :: "('d::linorder) anomaly list \<Rightarrow> 'd pivot" where
  "pivot_table df =
     (let idx = sort (remdups (map district df));
          cols = sort (remdups (map hour df))
      in \<lparr>pivot_index = idx, pivot_columns = cols,
          pivot_values = map (\<lambda>d. map (\<lambda>h. pivot_cell df d h) cols) idx\<rparr>)"

record 'd heatmap_figure =
  heatmap_data :: "'d pivot"
  heatmap_labels :: "(string \<times> string) list"
  heatmap_title :: string
  color_continuous_scale :: string
  heatmap_height :: nat

definition create_anomaly_heatmap :: "('d::linorder) anomaly list \<Rightarrow> 'd heatmap_figure" where
  "create_anomaly_heatmap dbscan_anomalies =
     \<lparr>heatmap_data = pivot_table dbscan_anomalies,
      heatmap_labels = [(''x'', ''Hour of Day''), (''y'', ''District''), (''color'', ''Delay Rate'')],
      heatmap_title = ''Anomalous Response Patterns by District and Hour'',
      color_continuous_scale = ''Reds'',
      heatmap_height = 400\<rparr>"

section \<open>Data Loader\<close>

text \<open>
  What is on disk when \<^verbatim>\<open>load_data\<close> runs.  A file is absent, present but unreadable by
  its parser, or readable with some content.  The archive, when it can be opened, holds
  the state of the CSV that extracting it leaves behind.
\<close>

datatype 'a artifact = Missing | Corrupt | Readable 'a

datatype exn =
  FileNotFoundError | ParserError | BadZipFile | UnpicklingError
  | ValueError | KeyError | IndexError

text \<open>Per-district detail of the Anomaly Summary; tables of unknown shape are lists of rows.\<close>

record 't details =
  anomalous_hours :: int
  avg_response :: rat
  avg_delay_rate :: rat
  worst_hours :: "'t list"

record ('d, 't) anomaly_summary =
  district_rankings :: "'t list"
  top_3_districts :: "'d list"
  detailed_analysis :: "('d \<times> 't details) list"

text \<open>
  The pickle holds one object: an Anomaly Summary or, for a pickle of \<^verbatim>\<open>None\<close>, nothing.
\<close>

record ('d, 't) files =
  csv_zip :: "'d call list artifact artifact"
  csv_file :: "'d call list artifact"
  anomalies_csv :: "'d anomaly list artifact"
  summary_pkl :: "('d, 't) anomaly_summary option artifact"

section \<open>Page elements\<close>

datatype metric_value = Count nat | Plain int | Minutes "rat option" | Percent "rat option"

text \<open>The rows of \<^verbatim>\<open>display_df\<close>: district, average minutes, delay percentage, calls, hotspot.\<close>

type_synonym 'd display_row = "'d \<times> rat \<times> rat \<times> nat \<times> bool"

datatype ('d, 't) frame =
  Display_df "'d display_row list" | Rankings_df "'t list" | Worst_hours_df "'t list"

datatype 'd chart = Bar_chart "'d bar_figure" | Heatmap "'d heatmap_figure"

text \<open>The values interpolated into the Key Findings text (lines 226--238).\<close>

record 'd key_findings =
  slowest_district :: "'d summary_row"
  fastest_district :: "'d summary_row"
  hotspot_ids :: "'d list"

text \<open>
  The values interpolated into the ML insights text (lines 308--321): the first hotspot
  district or \<^verbatim>\<open>'None'\<close>, the first of the top three districts and its delay rate.
\<close>

record 'd ml_insights =
  primary_hotspot :: "'d option"
  top_district :: 'd
  top_delay_rate :: rat

text \<open>
  What a Streamlit call puts on the page.  A metric carries the number that the source
  formats to one decimal; fixed texts are given by their wording.
\<close>

datatype ('d, 't) element =
  St_title string
  | St_markdown string
  | St_error string
  | St_error_loading exn
  | St_warning string
  | St_header string
  | St_subheader string
  | St_info nat nat
  | St_tabs "string list"
  | St_metric string metric_value
  | St_plotly_chart "'d chart"
  | St_dataframe "('d, 't) frame"
  | St_key_findings "'d key_findings"
  | St_expander 'd bool
  | St_ml_insights "'d ml_insights"
  | St_last_updated string

datatype place = Page | Sidebar | Tab1 | Tab2

text \<open>
  One step of a run: an element shown at a place, the computation of the District
  Summary (line 168), or an exception that nothing catches, which ends the run.
\<close>

datatype ('d, 't) step =
  Show place "('d, 't) element"
  | Summarize "'d summary_row list"
  | Uncaught exn

text \<open>A step of the loader: the file's content, or the exception reading it raises.\<close>

definition read_file :: "exn \<Rightarrow> 'a artifact \<Rightarrow> exn + 'a" where
  "read_file parse_error f =
     (case f of Missing \<Rightarrow> Inl FileNotFoundError
      | Corrupt \<Rightarrow> Inl parse_error
      | Readable a \<Rightarrow> Inr a)"

text \<open>
  Lines 43--44: the archive is extracted when it exists and the CSV does not.  The result
  is the CSV as \<^verbatim>\<open>read_csv\<close> will find it.
\<close>

definition extract_archive :: "('d, 't) files \<Rightarrow> exn + 'd call list artifact" where
  "extract_archive fs =
     (if csv_zip fs \<noteq> Missing \<and> csv_file fs = Missing
      then (case csv_zip fs of
              Missing \<Rightarrow> Inr (csv_file fs)
            | Corrupt \<Rightarrow> Inl BadZipFile
            | Readable extracted \<Rightarrow> Inr extracted)
      else Inr (csv_file fs))"

type_synonym ('d, 't) loaded =
  "'d call list option \<times> 'd anomaly list option \<times> ('d, 't) anomaly_summary option"

text \<open>The \<^verbatim>\<open>except\<close> branch (lines 58--60).\<close>

definition load_failed :: "exn \<Rightarrow> ('d, 't) loaded \<times> ('d, 't) step list" where
  "load_failed e = ((None, None, None), [Show Page (St_error_loading e)])"

definition load_data :: "('d, 't) files \<Rightarrow> ('d, 't) loaded \<times> ('d, 't) step list" where
  "load_data fs =
     (case extract_archive fs of
        Inl e \<Rightarrow> load_failed e
      | Inr csv \<Rightarrow>
     (case read_file ParserError csv of
        Inl e \<Rightarrow> load_failed e
      | Inr df \<Rightarrow>
     (case read_file ParserError (anomalies_csv fs) of
        Inl e \<Rightarrow> load_failed e
      | Inr dbscan_anomalies \<Rightarrow>
     (case read_file UnpicklingError (summary_pkl fs) of
        Inl e \<Rightarrow> load_failed e
      | Inr anomaly_summary \<Rightarrow>
          ((Some df, Some dbscan_anomalies, anomaly_summary), [])))))"

section \<open>Presentation Controller\<close>

definition nunique :: "'a list \<Rightarrow> nat" where
  "nunique xs = length (remdups xs)"

fun first_index :: "'a \<Rightarrow> 'a list \<Rightarrow> nat" where
  "first_index v [] = 0"
| "first_index v (x # xs) = (if x = v then 0 else Suc (first_index v xs))"

text \<open>
  \<^verbatim>\<open>Series.idxmax()\<close> and \<^verbatim>\<open>Series.idxmin()\<close> on a series with the default index: the
  position of the first occurrence of the extreme value; \<^verbatim>\<open>ValueError\<close> on an empty
  series.
\<close>

definition idxmax :: "rat list \<Rightarrow> exn + nat" where
  "idxmax xs =
     (case xs of [] \<Rightarrow> Inl ValueError
      | x # rest \<Rightarrow> Inr (first_index (fold max rest x) xs))"

definition idxmin :: "rat list \<Rightarrow> exn + nat" where
  "idxmin xs =
     (case xs of [] \<Rightarrow> Inl ValueError
      | x # rest \<Rightarrow> Inr (first_index (fold min rest x) xs))"

text \<open>The messages of lines 160 and 245.\<close>

definition unable_to_load :: string where
  "unable_to_load =
     ''Unable to load data files. Please ensure all required files are in the correct directory.''"

definition ml_not_available :: string where
  "ml_not_available = ''ML anomaly data not available.''"

definition data_source :: string where
  "data_source = ''**Data Source:** Austin Police Department Calls for Service (2019-2024)''"

text \<open>Lines 151--153.\<close>

definition main_header :: "('d, 't) step list" where
  "main_header =
     [Show Page (St_title ''Austin 911 Emergency Response Analysis''),
      Show Page (St_markdown
        ''*Spatiotemporal analysis of emergency response times across Austin council districts*''),
      Show Page (St_markdown ''---'')]"

text \<open>Lines 164--165.\<close>

definition sidebar :: "'d call list \<Rightarrow> ('d, 't) step list" where
  "sidebar df =
     [Show Sidebar (St_header ''Dashboard Controls''),
      Show Sidebar (St_info (length df) (nunique (map council_district df)))]"

text \<open>Line 182.\<close>

definition hotspot_list :: "'d summary_row list \<Rightarrow> 'd list" where
  "hotspot_list district_summary = map council_district_s (filter is_hotspot_s district_summary)"

text \<open>Lines 174--190: the four scalar metrics of the first tab.\<close>

definition tab1_metrics :: "'d call list \<Rightarrow> 'd summary_row list \<Rightarrow> ('d, 't) step list" where
  "tab1_metrics df district_summary =
     (let total_calls = length df;
          avg_response = series_mean (map avg_response_min district_summary);
          hotspot_districts = hotspot_list district_summary;
          overall_delay_rate =
            map_option (\<lambda>m. m * 100) (series_mean (map (\<lambda>c. of_bool (delayed c)) df))
      in [Show Tab1 (St_header ''Percentile-Based Hotspot Analysis''),
          Show Tab1 (St_markdown
            ''*Identifying consistently problematic districts using 90th percentile threshold*''),
          Show Tab1 (St_metric ''Total Calls'' (Count total_calls)),
          Show Tab1 (St_metric ''Avg Response Time'' (Minutes avg_response)),
          Show Tab1 (St_metric ''Hotspot Districts'' (Count (length hotspot_districts))),
          Show Tab1 (St_metric ''Overall Delay Rate'' (Percent overall_delay_rate)),
          Show Tab1 (St_markdown ''---'')])"

text \<open>A figure object counts as true in a condition.\<close>

definition truthy :: "'d bar_figure \<Rightarrow> bool" where
  "truthy fig = True"

text \<open>Lines 192--202.\<close>

definition tab1_chart :: "'d summary_row list \<Rightarrow> unit option \<Rightarrow> ('d, 't) step list" where
  "tab1_chart district_summary austin_gdf =
     (let choropleth_fig = create_choropleth_map district_summary austin_gdf
      in Show Tab1 (St_subheader ''Response Time Choropleth Map'') #
         (if truthy choropleth_fig
          then [Show Tab1 (St_plotly_chart (Bar_chart choropleth_fig))]
          else [Show Tab1 (St_warning ''Choropleth map unavailable. Showing bar chart instead.''),
                Show Tab1 (St_plotly_chart (Bar_chart (create_district_bar_chart district_summary)))]))"

text \<open>Lines 205--220.\<close>

definition tab1_table :: "'d summary_row list \<Rightarrow> ('d, 't) step list" where
  "tab1_table district_summary =
     (let display_df =
            map (\<lambda>r. (council_district_s r, avg_response_min r, delay_percentage r,
                       total_calls r, is_hotspot_s r))
              (sort_values_desc avg_response_min district_summary)
      in [Show Tab1 (St_subheader ''District Performance Summary''),
          Show Tab1 (St_dataframe (Display_df display_df)),
          Show Tab1 (St_subheader ''Key Findings'')])"

text \<open>
  Lines 223--224 with the values of lines 226--238: the rows at the positions of the
  largest and of the smallest \<^verbatim>\<open>avg_response_min\<close>.
\<close>

definition find_key_findings :: "'d summary_row list \<Rightarrow> exn + 'd key_findings" where
  "find_key_findings district_summary =
     (case idxmax (map avg_response_min district_summary) of
        Inl e \<Rightarrow> Inl e
      | Inr i \<Rightarrow>
     (case idxmin (map avg_response_min district_summary) of
        Inl e \<Rightarrow> Inl e
      | Inr j \<Rightarrow>
          Inr \<lparr>slowest_district = district_summary ! i,
               fastest_district = district_summary ! j,
               hotspot_ids = hotspot_list district_summary\<rparr>))"

text \<open>How a block of \<^verbatim>\<open>main\<close> ends: it runs through, it returns from \<^verbatim>\<open>main\<close>, or it raises.\<close>

datatype outcome = Completed | Returned | Raised exn

text \<open>Lines 249--262: the four scalar metrics of the second tab.\<close>

definition tab2_metrics :: "'d anomaly list \<Rightarrow> ('d, 't) step list" where
  "tab2_metrics dbscan_anomalies =
     (let affected_districts = nunique (map district dbscan_anomalies);
          avg_anomaly_response = series_mean (map avg_response_min_a dbscan_anomalies);
          avg_anomaly_delay =
            map_option (\<lambda>m. m * 100) (series_mean (map delay_rate_a dbscan_anomalies))
      in [Show Tab2 (St_metric ''Anomalous Patterns'' (Count (length dbscan_anomalies))),
          Show Tab2 (St_metric ''Affected Districts'' (Count affected_districts)),
          Show Tab2 (St_metric ''Avg Anomaly Response'' (Minutes avg_anomaly_response)),
          Show Tab2 (St_metric ''Avg Anomaly Delay Rate'' (Percent avg_anomaly_delay)),
          Show Tab2 (St_markdown ''---'')])"

text \<open>Lines 265--281.\<close>

definition tab2_rankings ::
  "('d::linorder) anomaly list \<Rightarrow> ('d, 't) anomaly_summary \<Rightarrow> ('d, 't) step list" where
  "tab2_rankings dbscan_anomalies anomaly_summary =
     [Show Tab2 (St_subheader ''Most Anomalous Districts''),
      Show Tab2 (St_dataframe (Rankings_df (district_rankings anomaly_summary))),
      Show Tab2 (St_subheader ''Anomaly Patterns Heatmap''),
      Show Tab2 (St_plotly_chart (Heatmap (create_anomaly_heatmap dbscan_anomalies))),
      Show Tab2 (St_subheader ''Detailed District Analysis'')]"

text \<open>
  Lines 285--303, the loop over \<^verbatim>\<open>enumerate(top_3_districts)\<close> from position \<open>i\<close> on.  The
  expander is created before the district is looked up in \<^verbatim>\<open>detailed_analysis\<close>; a
  district without an entry raises \<^verbatim>\<open>KeyError\<close>.
\<close>

fun expanders ::
  "('d \<times> 't details) list \<Rightarrow> nat \<Rightarrow> 'd list \<Rightarrow> ('d, 't) step list \<times> exn option" where
  "expanders analysis i [] = ([], None)"
| "expanders analysis i (district_id # others) =
     (case map_of analysis district_id of
        None \<Rightarrow> ([Show Tab2 (St_expander district_id (i = 0))], Some KeyError)
      | Some details \<Rightarrow>
          (case expanders analysis (Suc i) others of (later, e) \<Rightarrow>
             ([Show Tab2 (St_expander district_id (i = 0)),
               Show Tab2 (St_metric ''Anomalous Hours'' (Plain (anomalous_hours details))),
               Show Tab2 (St_metric ''Avg Response Time'' (Minutes (Some (avg_response details)))),
               Show Tab2 (St_metric ''Avg Delay Rate'' (Percent (Some (avg_delay_rate details * 100)))),
               Show Tab2 (St_markdown ''**Worst Performing Hours:**'')]
              @ (if worst_hours details \<noteq> []
                 then [Show Tab2 (St_dataframe (Worst_hours_df (worst_hours details)))]
                 else [])
              @ later, e)))"

text \<open>
  The values of lines 308--321, read left to right: \<^verbatim>\<open>top_3_districts[0]\<close> raises
  \<^verbatim>\<open>IndexError\<close> on an empty list and the lookup of that district \<^verbatim>\<open>KeyError\<close>.
\<close>

definition find_ml_insights ::
  "'d list \<Rightarrow> ('d, 't) anomaly_summary \<Rightarrow> exn + 'd ml_insights" where
  "find_ml_insights hotspot_districts anomaly_summary =
     (case top_3_districts anomaly_summary of
        [] \<Rightarrow> Inl IndexError
      | first_id # _ \<Rightarrow>
     (case map_of (detailed_analysis anomaly_summary) first_id of
        None \<Rightarrow> Inl KeyError
      | Some details \<Rightarrow>
          Inr \<lparr>primary_hotspot = (case hotspot_districts of [] \<Rightarrow> None | h # _ \<Rightarrow> Some h),
               top_district = first_id,
               top_delay_rate = avg_delay_rate details\<rparr>))"

text \<open>Lines 240--321: the second tab, with the guard of lines 244--246.\<close>

definition tab2 ::
  "'d list \<Rightarrow> ('d::linorder) anomaly list option \<Rightarrow> ('d, 't) anomaly_summary option
     \<Rightarrow> ('d, 't) step list \<times> outcome" where
  "tab2 hotspot_districts dbscan_anomalies anomaly_summary =
     (let head = [Show Tab2 (St_header ''ML-Based Anomaly Detection''),
                  Show Tab2 (St_markdown
                    ''*DBSCAN clustering identifies unusual operational patterns*'')]
      in case (dbscan_anomalies, anomaly_summary) of
           (Some anomalies, Some summary) \<Rightarrow>
             (case expanders (detailed_analysis summary) 0 (top_3_districts summary) of
                (shown, Some e) \<Rightarrow>
                  (head @ tab2_metrics anomalies @ tab2_rankings anomalies summary @ shown,
                   Raised e)
              | (shown, None) \<Rightarrow>
                  (case find_ml_insights hotspot_districts summary of
                     Inl e \<Rightarrow>
                       (head @ tab2_metrics anomalies @ tab2_rankings anomalies summary @ shown
                          @ [Show Tab2 (St_subheader ''ML Insights vs Percentile Analysis'')],
                        Raised e)
                   | Inr insights \<Rightarrow>
                       (head @ tab2_metrics anomalies @ tab2_rankings anomalies summary @ shown
                          @ [Show Tab2 (St_subheader ''ML Insights vs Percentile Analysis''),
                             Show Tab2 (St_ml_insights insights)],
                        Completed)))
         | _ \<Rightarrow> (head @ [Show Tab2 (St_error ml_not_available)], Returned))"

text \<open>Lines 323--326; \<open>now\<close> is the clock reading.\<close>

definition footer :: "string \<Rightarrow> ('d, 't) step list" where
  "footer now =
     [Show Page (St_markdown ''---''),
      Show Page (St_last_updated now),
      Show Page (St_markdown data_source)]"

text \<open>
  Lines 157--326: what \<^verbatim>\<open>main\<close> does with the triple that \<^verbatim>\<open>load_data\<close> returned.
\<close>

definition main_body :: "string \<Rightarrow> ('d::linorder, 't) loaded \<Rightarrow> ('d, 't) step list" where
  "main_body now loaded =
     (let austin_gdf = load_austin_districts
      in case loaded of
           (None, dbscan_anomalies, anomaly_summary) \<Rightarrow>
             [Show Page (St_error unable_to_load)]
         | (Some df, dbscan_anomalies, anomaly_summary) \<Rightarrow>
             (let district_summary = create_district_summary df
              in sidebar df
                 @ [Summarize district_summary,
                    Show Page (St_tabs [''Percentile-Based Hotspots'', ''ML Anomaly Detection''])]
                 @ tab1_metrics df district_summary
                 @ tab1_chart district_summary austin_gdf
                 @ tab1_table district_summary
                 @ (case find_key_findings district_summary of
                      Inl e \<Rightarrow> [Uncaught e]
                    | Inr findings \<Rightarrow>
                        Show Tab1 (St_key_findings findings) #
                        (case tab2 (hotspot_list district_summary) dbscan_anomalies anomaly_summary of
                           (shown, Completed) \<Rightarrow> shown @ footer now
                         | (shown, Returned) \<Rightarrow> shown
                         | (shown, Raised e) \<Rightarrow> shown @ [Uncaught e]))))"

text \<open>
  \<^verbatim>\<open>main\<close>: the header, then what \<^verbatim>\<open>load_data\<close> shows while it runs, then the rest of the
  pass on the triple it returned.
\<close>

definition main :: "('d::linorder, 't) files \<Rightarrow> string \<Rightarrow> ('d, 't) step list" where
  "main fs now =
     (case load_data fs of (loaded, shown) \<Rightarrow> main_header @ shown @ main_body now loaded)"

section \<open>Sample inputs\<close>

text \<open>
  Ten calls across two districts: six in district 1, three of them delayed, and four in
  district 2, none delayed.
\<close>

definition sample_call :: "int \<Rightarrow> rat \<Rightarrow> bool \<Rightarrow> bool \<Rightarrow> int call" where
  "sample_call d secs late hot =
     \<lparr>council_district = d, response_time_sec = Some secs, response_time_min = secs / 60,
      delayed = late, is_hotspot = hot\<rparr>"

definition ten_calls :: "int call list" where
  "ten_calls =
     [sample_call 1 300 False True, sample_call 2 120 False False,
      sample_call 1 900 True True, sample_call 1 840 True True,
      sample_call 2 180 False False, sample_call 1 240 False True,
      sample_call 2 150 False False, sample_call 1 960 True True,
      sample_call 1 360 False True, sample_call 2 210 False False]"

text \<open>Three calls in one district, one of them delayed.\<close>

definition three_calls :: "int call list" where
  "three_calls =
     [sample_call 7 60 False False, sample_call 7 120 True False,
      sample_call 7 240 False False]"

text \<open>Two calls in one district; the second has an empty \<^verbatim>\<open>response_time_sec\<close> cell.\<close>

definition calls_with_gap :: "int call list" where
  "calls_with_gap =
     [sample_call 1 300 False False,
      \<lparr>council_district = 1, response_time_sec = None, response_time_min = 5,
       delayed = False, is_hotspot = False\<rparr>]"

text \<open>
  One call in each of three districts: district 1 takes three minutes, district 2 two
  minutes and district 3 one minute; only district 2 is a hotspot.
\<close>

definition crossed_calls :: "int call list" where
  "crossed_calls =
     [sample_call 1 180 False False, sample_call 2 120 False True,
      sample_call 3 60 False False]"

definition sample_anomalies :: "int anomaly list" where
  "sample_anomalies =
     [\<lparr>district = 2, hour = 17, delay_rate_a = 3 / 4, avg_response_min_a = 14\<rparr>,
      \<lparr>district = 1, hour = 3, delay_rate_a = 1 / 2, avg_response_min_a = 11\<rparr>,
      \<lparr>district = 1, hour = 17, delay_rate_a = 9 / 10, avg_response_min_a = 16\<rparr>]"

definition sample_summary :: "(int, unit) anomaly_summary" where
  "sample_summary =
     \<lparr>district_rankings = [(), ()],
      top_3_districts = [1, 2],
      detailed_analysis =
        [(1, \<lparr>anomalous_hours = 2, avg_response = 27 / 2, avg_delay_rate = 7 / 10,
              worst_hours = [()]\<rparr>),
         (2, \<lparr>anomalous_hours = 1, avg_response = 14, avg_delay_rate = 3 / 4,
              worst_hours = []\<rparr>)]\<rparr>"

text \<open>All three artifacts on disk and readable; no archive.\<close>

definition sample_files :: "(int, unit) files" where
  "sample_files =
     \<lparr>csv_zip = Missing, csv_file = Readable ten_calls,
      anomalies_csv = Readable sample_anomalies,
      summary_pkl = Readable (Some sample_summary)\<rparr>"

text \<open>The same disk without \<^verbatim>\<open>DBSCAN_Anomalies.csv\<close>.\<close>

definition files_without_anomalies :: "(int, unit) files" where
  "files_without_anomalies = sample_files\<lparr>anomalies_csv := Missing\<rparr>"

text \<open>The same disk without the primary CSV and without its archive.\<close>

definition files_without_calls :: "(int, unit) files" where
  "files_without_calls = sample_files\<lparr>csv_file := Missing\<rparr>"

text \<open>The same disk with a pickle of \<^verbatim>\<open>None\<close> as \<^verbatim>\<open>anomaly_summary.pkl\<close>.\<close>

definition files_with_pickled_none :: "(int, unit) files" where
  "files_with_pickled_none = sample_files\<lparr>summary_pkl := Readable None\<rparr>"

text \<open>A clock reading.\<close>

definition sample_now :: string where
  "sample_now = ''2024-06-01 12:00:00''"

text \<open>The elements that a run shows at one place, in order.\<close>

definition shown_at :: "place \<Rightarrow> ('d, 't) step list \<Rightarrow> ('d, 't) element list" where
  "shown_at p run =
     concat (map (\<lambda>st. case st of Show q el \<Rightarrow> if q = p then [el] else [] | _ \<Rightarrow> []) run)"

text \<open>The rows of one district.\<close>

definition group_of :: "'d call list \<Rightarrow> 'd \<Rightarrow> 'd call list" where
  "group_of df k = filter (\<lambda>r. council_district r = k) df"

section \<open>Float64 rounding\<close>

lemma pow2_powi: "pow2 e = 2 powi e"
  by (simp add: pow2_def power_int_def inverse_eq_divide power_one_over)

lemma pow2_pos: "0 < pow2 e"
  by (simp add: pow2_powi)

lemma bitlen_lower: "0 < p \<Longrightarrow> pow2 (bitlen p - 1) \<le> of_int p"
proof -
  assume p: "0 < p"
  then have b: "0 < bitlen p"
    using bitlen_eq_zero_iff [of p] bitlen_nonneg [of p] by simp
  from p have "2 ^ nat (bitlen p - 1) \<le> p" using bitlen_bounds by blast
  then have "(of_int (2 ^ nat (bitlen p - 1)) :: rat) \<le> of_int p" by (simp only: of_int_le_iff)
  with b show ?thesis by (simp add: pow2_def)
qed

lemma bitlen_upper: "0 < q \<Longrightarrow> of_int q \<le> pow2 (bitlen q)"
proof -
  assume q: "0 < q"
  then have "q < 2 ^ nat (bitlen q)" using bitlen_bounds by blast
  then have "(of_int q :: rat) \<le> of_int (2 ^ nat (bitlen q))" by simp
  moreover have "0 \<le> bitlen q" by (simp add: bitlen_def)
  ultimately show ?thesis by (simp add: pow2_def)
qed

lemma exponent_le:
  assumes "0 < x"
  shows "pow2 (exponent x) \<le> x"
proof -
  obtain p q where pq: "quotient_of x = (p, q)" by (cases "quotient_of x")
  then have q: "0 < q" and x: "x = of_int p / of_int q"
    using quotient_of_denom_pos quotient_of_div by blast+
  with assms have p: "0 < p" by (simp add: zero_less_divide_iff)
  let ?d = "bitlen p - bitlen q"
  have "pow2 (?d - 1) = pow2 (bitlen p - 1) / pow2 (bitlen q)"
    by (simp add: pow2_powi power_int_diff)
  also have "\<dots> \<le> of_int p / pow2 (bitlen q)"
    using bitlen_lower [OF p] pow2_pos [of "bitlen q"] by (simp add: divide_right_mono)
  also have "\<dots> \<le> of_int p / of_int q"
    using bitlen_upper [OF q] q p by (simp add: divide_left_mono)
  finally have low: "pow2 (?d - 1) \<le> x" by (simp add: x)
  show ?thesis
    using low by (simp add: exponent_def pq Let_def)
qed

lemma round_half_even_near: "\<bar>of_int (round_half_even x) - x\<bar> \<le> 1 / 2"
proof -
  have "of_int \<lfloor>x\<rfloor> \<le> x" "x < of_int \<lfloor>x\<rfloor> + 1" by linarith+
  then show ?thesis
    by (auto simp: round_half_even_def Let_def abs_le_iff)
qed

text \<open>A double is within half a unit in the last place of the number it rounds.\<close>

lemma fl_near: "\<bar>fl x - x\<bar> \<le> \<bar>x\<bar> / 2 ^ 53"
proof (cases "x = 0")
  case True
  then show ?thesis by (simp add: fl_def)
next
  case False
  let ?a = "\<bar>x\<bar>"
  let ?u = "pow2 (exponent ?a - 52)"
  from False have a: "0 < ?a" by simp
  have u: "0 < ?u" by (rule pow2_pos)
  have "fl x = sgn x * (of_int (round_half_even (?a / ?u)) * ?u)"
    using False by (simp add: fl_def Let_def)
  moreover have "x = sgn x * (?a / ?u * ?u)" using u by (simp add: sgn_mult_abs)
  ultimately have "fl x - x = sgn x * ((of_int (round_half_even (?a / ?u)) - ?a / ?u) * ?u)"
    by (simp add: algebra_simps)
  then have "\<bar>fl x - x\<bar> = \<bar>of_int (round_half_even (?a / ?u)) - ?a / ?u\<bar> * ?u"
    using False u by (simp add: abs_mult abs_sgn_eq)
  also have "\<dots> \<le> 1 / 2 * ?u"
    using round_half_even_near [of "?a / ?u"] u by (simp add: mult_right_mono)
  also have "?u = pow2 (exponent ?a) / 2 ^ 52"
    by (simp add: pow2_powi power_int_diff)
  also have "1 / 2 * (pow2 (exponent ?a) / 2 ^ 52) \<le> 1 / 2 * (?a / 2 ^ 52)"
    using exponent_le [OF a] by (simp add: divide_right_mono)
  finally show ?thesis by simp
qed


lemma float_zero: "fl 0 = 0" "fdiv 0 x = 0" "fmul 0 x = 0" "round2 0 = 0"
  by (simp_all add: fl_def fdiv_def fmul_def round2_def round_half_even_def)

lemma float_half: "round2 (fdiv 3 6) = 1 / 2" "fmul (1 / 2) 100 = 50"
  by code_simp+


text \<open>
  Decimal ties: 23 of 40 is 0.575 exactly, whose double lies below it, and rounds to
  0.57; the product of that by 100 is the double below 57.  109 of 200 rounds to 0.55.
\<close>

lemma float_ties:
  "round2 (fdiv 23 40) = fl (57 / 100)" "fmul (fl (57 / 100)) 100 = 57 - 1 / 2 ^ 47"
  "round2 (fdiv 109 200) = fl (55 / 100)"
  by code_simp+

section \<open>The District Summary has one row for each district\<close>

lemma agg_nonempty: "rows \<noteq> [] \<Longrightarrow> agg (k, rows) = [district_row k (hd rows) (tl rows)]"
  by (cases rows) simp_all

lemma concat_agg:
  "\<forall>k \<in> set ks. g k \<noteq> [] \<Longrightarrow>
     concat (map (\<lambda>k. agg (k, g k)) ks) = map (\<lambda>k. district_row k (hd (g k)) (tl (g k))) ks"
  by (induction ks) (simp_all add: agg_nonempty)

lemma create_district_summary_map:
  "create_district_summary df =
     map (\<lambda>k. district_row k (hd (group_of df k)) (tl (group_of df k)))
       (sort (remdups (map council_district df)))"
proof -
  have "\<forall>k \<in> set (sort (remdups (map council_district df))). group_of df k \<noteq> []"
    by (auto simp: group_of_def filter_empty_conv)
  from concat_agg [OF this] show ?thesis
    by (simp add: create_district_summary_def groupby_def comp_def group_of_def)
qed

lemma length_present:
  "length (present col rows) = length (filter (\<lambda>r. col r \<noteq> None) rows)"
  by (induction rows) (auto simp: present_def split: option.splits)

lemma present_all:
  "\<forall>r \<in> set rows. col r \<noteq> None \<Longrightarrow> length (present col rows) = length rows"
  by (simp add: length_present)

lemma district_row_sel:
  "council_district_s (district_row k r rs) = k"
  "total_calls (district_row k r rs) = length (present response_time_sec (r # rs))"
  "total_delayed (district_row k r rs) = length (filter delayed (r # rs))"
  "delay_rate (district_row k r rs)
     = round2 (group_mean (map (\<lambda>c. of_bool (delayed c)) (r # rs)))"
  "delay_percentage (district_row k r rs)
     = fmul (round2 (group_mean (map (\<lambda>c. of_bool (delayed c)) (r # rs)))) 100"
  "avg_response_sec (district_row k r rs)
     = (if present response_time_sec (r # rs) = [] then None
        else Some (round2 (group_mean (present response_time_sec (r # rs)))))"
  "median_response_sec (district_row k r rs)
     = (if present response_time_sec (r # rs) = [] then None
        else Some (round2 (median (present response_time_sec (r # rs)))))"
  "avg_response_min (district_row k r rs) = round2 (group_mean (map response_time_min (r # rs)))"
  "is_hotspot_s (district_row k r rs) = is_hotspot r"
  by (simp_all add: district_row_def Let_def)

lemma summary_districts:
  "map council_district_s (create_district_summary df) = sort (remdups (map council_district df))"
  by (simp add: create_district_summary_map comp_def district_row_sel)

lemma summary_length:
  "length (create_district_summary df) = card (council_district ` set df)"
proof -
  have "length (create_district_summary df) = length (remdups (map council_district df))"
    by (simp add: create_district_summary_map)
  also have "\<dots> = card (set (map council_district df))"
    by (rule length_remdups_card_conv)
  finally show ?thesis by simp
qed

text \<open>Every summary row is the aggregation of the non-empty group of its district.\<close>

lemma summary_row_group:
  assumes "row \<in> set (create_district_summary df)"
  shows "\<exists>r rs. group_of df (council_district_s row) = r # rs
           \<and> row = district_row (council_district_s row) r rs"
proof -
  from assms obtain k where k: "k \<in> council_district ` set df"
    and row: "row = district_row k (hd (group_of df k)) (tl (group_of df k))"
    by (auto simp: create_district_summary_map)
  from k have "group_of df k \<noteq> []" by (auto simp: group_of_def filter_empty_conv)
  then have "group_of df k = hd (group_of df k) # tl (group_of df k)" by simp
  moreover from row have "council_district_s row = k" by (simp add: district_row_sel)
  ultimately show ?thesis using row by metis
qed

section \<open>Columns of the District Summary\<close>

lemma sum_list_of_bool:
  "sum_list (map (\<lambda>c. of_bool (P c)) xs) = (of_nat (length (filter P xs)) :: rat)"
  by (induction xs) simp_all

lemma group_mean_of_bool:
  "group_mean (map (\<lambda>c. of_bool (P c)) xs)
     = fdiv (of_nat (length (filter P xs))) (of_nat (length xs))"
  by (simp add: group_mean_def sum_list_of_bool)

text \<open>The columns of a summary row in terms of the rows of its district.\<close>

lemma summary_row_columns:
  assumes "row \<in> set (create_district_summary df)"
  defines "rows \<equiv> filter (\<lambda>r. council_district r = council_district_s row) df"
  shows "rows \<noteq> []"
    and "total_calls row = length (filter (\<lambda>r. response_time_sec r \<noteq> None) rows)"
    and "total_delayed row = length (filter delayed rows)"
    and "avg_response_sec row
           = (if present response_time_sec rows = [] then None
              else Some (round2 (group_mean (present response_time_sec rows))))"
    and "median_response_sec row
           = (if present response_time_sec rows = [] then None
              else Some (round2 (median (present response_time_sec rows))))"
    and "avg_response_min row = round2 (group_mean (map response_time_min rows))"
    and "delay_rate row
           = round2 (fdiv (of_nat (length (filter delayed rows))) (of_nat (length rows)))"
    and "delay_percentage row = fmul (delay_rate row) 100"
    and "is_hotspot_s row = is_hotspot (hd rows)"
proof -
  from summary_row_group [OF assms(1)] obtain r rs
    where g: "rows = r # rs"
      and row: "row = district_row (council_district_s row) r rs"
    unfolding rows_def group_of_def by blast
  show "rows \<noteq> []" by (simp add: g)
  have "total_calls row = length (present response_time_sec rows)"
    by (subst row) (simp only: district_row_sel g)
  then show "total_calls row = length (filter (\<lambda>r. response_time_sec r \<noteq> None) rows)"
    by (simp only: length_present)
  show "total_delayed row = length (filter delayed rows)"
    by (subst row) (simp only: district_row_sel g)
  show "avg_response_sec row
           = (if present response_time_sec rows = [] then None
              else Some (round2 (group_mean (present response_time_sec rows))))"
    by (subst row) (simp only: district_row_sel g)
  show "median_response_sec row
           = (if present response_time_sec rows = [] then None
              else Some (round2 (median (present response_time_sec rows))))"
    by (subst row) (simp only: district_row_sel g)
  show "avg_response_min row = round2 (group_mean (map response_time_min rows))"
    by (subst row) (simp only: district_row_sel g)
  have "delay_rate row = round2 (group_mean (map (\<lambda>c. of_bool (delayed c)) rows))"
    by (subst row) (simp only: district_row_sel g)
  then show "delay_rate row
      = round2 (fdiv (of_nat (length (filter delayed rows))) (of_nat (length rows)))"
    by (simp only: group_mean_of_bool)
  show "delay_percentage row = fmul (delay_rate row) 100"
    by (subst (1 2) row) (simp only: district_row_sel)
  show "is_hotspot_s row = is_hotspot (hd rows)"
    by (subst row) (simp add: district_row_sel g)
qed

lemma summary_total_calls:
  assumes "row \<in> set (create_district_summary df)"
  shows "total_calls row
     = length (filter (\<lambda>r. council_district r = council_district_s row
                            \<and> response_time_sec r \<noteq> None) df)"
  using summary_row_columns(2) [OF assms] by (simp add: conj_commute)

lemma summary_total_calls_complete:
  assumes "row \<in> set (create_district_summary df)"
    and "\<forall>r \<in> set df. response_time_sec r \<noteq> None"
  shows "total_calls row = length (filter (\<lambda>r. council_district r = council_district_s row) df)"
proof -
  have "filter (\<lambda>r. council_district r = council_district_s row \<and> response_time_sec r \<noteq> None) df
      = filter (\<lambda>r. council_district r = council_district_s row) df"
    using assms(2) by (auto intro: filter_cong)
  with summary_total_calls [OF assms(1)] show ?thesis by simp
qed

lemma two_districts_keys:
  fixes df :: "('d::linorder) call list"
  assumes lt: "d1 < d2" and n: "length df = 10"
    and n1: "length (group_of df d1) = 6" and n2: "length (group_of df d2) = 4"
  shows "sort (remdups (map council_district df)) = [d1, d2]"
proof -
  let ?cd = "council_district :: 'd call \<Rightarrow> 'd"
  let ?rest = "filter (\<lambda>r. ?cd r \<noteq> d1) df"
  have a: "length ?rest = 4"
    using sum_length_filter_compl [of "\<lambda>r. ?cd r = d1" df] n n1 by (simp add: group_of_def)
  have b: "filter (\<lambda>r. ?cd r = d2) ?rest = group_of df d2"
    using lt by (auto simp: group_of_def intro: filter_cong)
  have "length (filter (\<lambda>r. ?cd r = d2) ?rest) + length (filter (\<lambda>r. \<not> ?cd r = d2) ?rest)
          = length ?rest"
    by (rule sum_length_filter_compl)
  with a b n2 have "filter (\<lambda>r. \<not> ?cd r = d2) ?rest = []" by simp
  then have only: "\<forall>r \<in> set df. ?cd r = d1 \<or> ?cd r = d2"
    by (auto simp: filter_empty_conv)
  from n1 have "group_of df d1 \<noteq> []" by auto
  then have in1: "d1 \<in> ?cd ` set df" by (auto simp: group_of_def filter_empty_conv)
  from n2 have "group_of df d2 \<noteq> []" by auto
  then have in2: "d2 \<in> ?cd ` set df" by (auto simp: group_of_def filter_empty_conv)
  from only in1 in2 have "set (map ?cd df) = {d1, d2}" by auto
  then have "sorted_list_of_set (set (map ?cd df)) = [d1, d2]" using lt by auto
  then show ?thesis by (simp only: sorted_list_of_set_sort_remdups)
qed

lemma example_ten_calls:
  fixes df :: "('d::linorder) call list"
  assumes lt: "d1 < d2" and n: "length df = 10"
    and full: "\<forall>r \<in> set df. response_time_sec r \<noteq> None"
    and n1: "length (filter (\<lambda>r. council_district r = d1) df) = 6"
    and k1: "length (filter delayed (filter (\<lambda>r. council_district r = d1) df)) = 3"
    and n2: "length (filter (\<lambda>r. council_district r = d2) df) = 4"
    and k2: "length (filter delayed (filter (\<lambda>r. council_district r = d2) df)) = 0"
  shows "map (\<lambda>row. (council_district_s row, total_calls row, delay_rate row, delay_percentage row))
           (create_district_summary df) = [(d1, 6, 1 / 2, 50), (d2, 4, 0, 0)]"
proof -
  have keys: "map council_district_s (create_district_summary df) = [d1, d2]"
    using two_districts_keys [OF lt n] n1 n2 by (simp add: summary_districts group_of_def)
  then obtain row1 row2 where s: "create_district_summary df = [row1, row2]"
    and c1: "council_district_s row1 = d1" and c2: "council_district_s row2 = d2"
    by (auto simp: map_eq_Cons_conv)
  have m1: "row1 \<in> set (create_district_summary df)"
    and m2: "row2 \<in> set (create_district_summary df)"
    by (simp_all add: s)
  have t1: "total_calls row1 = 6" using summary_total_calls_complete [OF m1 full] n1 c1 by simp
  have t2: "total_calls row2 = 4" using summary_total_calls_complete [OF m2 full] n2 c2 by simp
  have r1: "delay_rate row1 = 1 / 2"
    using summary_row_columns(7) [OF m1] n1 k1 c1 by (simp add: float_half)
  have r2: "delay_rate row2 = 0"
    using summary_row_columns(7) [OF m2] n2 k2 c2 by (simp add: float_zero)
  have p1: "delay_percentage row1 = 50"
    using summary_row_columns(8) [OF m1] r1 by (simp add: float_half)
  have p2: "delay_percentage row2 = 0"
    using summary_row_columns(8) [OF m2] r2 by (simp add: float_zero)
  show ?thesis by (simp add: s c1 c2 t1 t2 r1 r2 p1 p2)
qed

lemma ten_calls_counts:
  "length ten_calls = 10"
  "list_all (\<lambda>r. response_time_sec r \<noteq> None) ten_calls"
  "length (filter (\<lambda>r. council_district r = 1) ten_calls) = 6"
  "length (filter delayed (filter (\<lambda>r. council_district r = 1) ten_calls)) = 3"
  "length (filter (\<lambda>r. council_district r = 2) ten_calls) = 4"
  "length (filter delayed (filter (\<lambda>r. council_district r = 2) ten_calls)) = 0"
  by (simp_all add: ten_calls_def sample_call_def)

lemma calls_with_gap_summary:
  "create_district_summary calls_with_gap =
     [\<lparr>council_district_s = 1, avg_response_sec = Some 300, median_response_sec = Some 300,
       total_calls = 1, avg_response_min = 5, total_delayed = 0, delay_rate = 0,
       is_hotspot_s = False, delay_percentage = 0\<rparr>]"
  by code_simp

text \<open>
  Claim C1, as stated, fails.  The table \<open>calls_with_gap\<close> has two rows, both of district
  1, and the second has no \<^verbatim>\<open>response_time_sec\<close>: the summary's one row has
  \<open>total_calls\<close> 1, not 2.
\<close>

theorem total_calls_counterexample:
  "length (filter (\<lambda>r. council_district r = 1) calls_with_gap) = 2
   \<and> map council_district_s (create_district_summary calls_with_gap) = [1]
   \<and> map total_calls (create_district_summary calls_with_gap) = [1]"
  by (simp add: calls_with_gap_summary) (simp add: calls_with_gap_def sample_call_def)

text \<open>
  Claim C1, amended.  For a call table with \<open>D\<close> distinct districts the District Summary
  has exactly \<open>D\<close> rows, one for each district of the table, and the \<open>total_calls\<close> of a
  row is the number of rows of the table with that row's district and a
  \<^verbatim>\<open>response_time_sec\<close> that is not empty; in a table without an empty
  \<^verbatim>\<open>response_time_sec\<close> cell it is the number of rows with that row's district.  In
  particular such a table of ten calls, six in a district \<open>d1\<close> with three delayed and
  four in a district \<open>d2\<close> with none delayed, gives the rows with \<open>total_calls\<close> 6 and 4,
  \<open>delay_rate\<close> 0.5 and 0, \<open>delay_percentage\<close> 50 and 0.
\<close>

theorem create_district_summary_rows:
  fixes df :: "('d::linorder) call list"
  shows "length (create_district_summary df) = card (council_district ` set df)
     \<and> distinct (map council_district_s (create_district_summary df))
     \<and> set (map council_district_s (create_district_summary df)) = council_district ` set df
     \<and> (\<forall>row \<in> set (create_district_summary df).
          total_calls row
            = length (filter (\<lambda>r. council_district r = council_district_s row
                                   \<and> response_time_sec r \<noteq> None) df))
     \<and> (list_all (\<lambda>r. response_time_sec r \<noteq> None) df
        \<longrightarrow> (\<forall>row \<in> set (create_district_summary df).
              total_calls row
                = length (filter (\<lambda>r. council_district r = council_district_s row) df)))
     \<and> (d1 < d2 \<and> length df = 10
          \<and> list_all (\<lambda>r. response_time_sec r \<noteq> None) df
          \<and> length (filter (\<lambda>r. council_district r = d1) df) = 6
          \<and> length (filter delayed (filter (\<lambda>r. council_district r = d1) df)) = 3
          \<and> length (filter (\<lambda>r. council_district r = d2) df) = 4
          \<and> length (filter delayed (filter (\<lambda>r. council_district r = d2) df)) = 0
        \<longrightarrow> map (\<lambda>row. (council_district_s row, total_calls row, delay_rate row,
                           delay_percentage row))
              (create_district_summary df)
            = [(d1, 6, 1 / 2, 50), (d2, 4, 0, 0)])"
proof (intro conjI impI ballI)
  show "length (create_district_summary df) = card (council_district ` set df)"
    by (rule summary_length)
  show "distinct (map council_district_s (create_district_summary df))"
    by (simp add: summary_districts)
  show "set (map council_district_s (create_district_summary df)) = council_district ` set df"
    by (simp add: summary_districts)
next
  fix row assume "row \<in> set (create_district_summary df)"
  then show "total_calls row
      = length (filter (\<lambda>r. council_district r = council_district_s row
                             \<and> response_time_sec r \<noteq> None) df)"
    by (rule summary_total_calls)
next
  fix row
  assume "list_all (\<lambda>r. response_time_sec r \<noteq> None) df"
    and "row \<in> set (create_district_summary df)"
  then show "total_calls row
      = length (filter (\<lambda>r. council_district r = council_district_s row) df)"
    by (intro summary_total_calls_complete) (simp_all add: list_all_iff)
next
  assume "d1 < d2 \<and> length df = 10
          \<and> list_all (\<lambda>r. response_time_sec r \<noteq> None) df
          \<and> length (filter (\<lambda>r. council_district r = d1) df) = 6
          \<and> length (filter delayed (filter (\<lambda>r. council_district r = d1) df)) = 3
          \<and> length (filter (\<lambda>r. council_district r = d2) df) = 4
          \<and> length (filter delayed (filter (\<lambda>r. council_district r = d2) df)) = 0"
  then show "map (\<lambda>row. (council_district_s row, total_calls row, delay_rate row,
                           delay_percentage row))
              (create_district_summary df)
            = [(d1, 6, 1 / 2, 50), (d2, 4, 0, 0)]"
    by (intro example_ten_calls) (simp_all add: list_all_iff)
qed

theorem create_district_summary_rows_witness:
  "length ten_calls = 10
   \<and> list_all (\<lambda>r. response_time_sec r \<noteq> None) ten_calls
   \<and> length (filter (\<lambda>r. council_district r = 1) ten_calls) = 6
   \<and> length (filter delayed (filter (\<lambda>r. council_district r = 1) ten_calls)) = 3
   \<and> length (filter (\<lambda>r. council_district r = 2) ten_calls) = 4
   \<and> length (filter delayed (filter (\<lambda>r. council_district r = 2) ten_calls)) = 0
   \<and> map (\<lambda>row. (council_district_s row, total_calls row, delay_rate row, delay_percentage row))
       (create_district_summary ten_calls)
     = [(1, 6, 1 / 2, 50), (2, 4, 0, 0)]
   \<and> length (create_district_summary ten_calls) = card (council_district ` set ten_calls)"
proof -
  have lt: "(1::int) < 2" by simp
  note rows = create_district_summary_rows [of ten_calls 1 2]
  from rows lt ten_calls_counts
  have "map (\<lambda>row. (council_district_s row, total_calls row, delay_rate row, delay_percentage row))
          (create_district_summary ten_calls)
        = [(1, 6, 1 / 2, 50), (2, 4, 0, 0)]"
    by blast
  moreover from rows
  have "length (create_district_summary ten_calls) = card (council_district ` set ten_calls)"
    by blast
  ultimately show ?thesis using ten_calls_counts by blast
qed

text \<open>
  Claim C2.  In every row of the District Summary the \<open>delay_percentage\<close> column is the
  row's \<open>delay_rate\<close> column multiplied by 100: the float64 product of the two, which is
  within one rounding of their exact product.
\<close>

theorem delay_percentage_of_rate:
  "\<forall>row \<in> set (create_district_summary df).
     delay_percentage row = fmul (delay_rate row) 100
     \<and> \<bar>delay_percentage row - delay_rate row * 100\<bar> \<le> \<bar>delay_rate row * 100\<bar> / 2 ^ 53"
proof
  fix row assume "row \<in> set (create_district_summary df)"
  then have "delay_percentage row = fmul (delay_rate row) 100"
    by (rule summary_row_columns(8))
  then show "delay_percentage row = fmul (delay_rate row) 100
     \<and> \<bar>delay_percentage row - delay_rate row * 100\<bar> \<le> \<bar>delay_rate row * 100\<bar> / 2 ^ 53"
    using fl_near [of "delay_rate row * 100"] by (simp add: fmul_def)
qed

lemma ten_calls_districts:
  "map council_district_s (create_district_summary ten_calls) = [1, 2]"
  by (simp add: summary_districts ten_calls_def sample_call_def)

theorem delay_percentage_of_rate_witness:
  "\<exists>row. row \<in> set (create_district_summary ten_calls)
      \<and> council_district_s row = 1
      \<and> delay_percentage row = fmul (delay_rate row) 100"
proof -
  from ten_calls_districts obtain row others
    where "create_district_summary ten_calls = row # others" and d: "council_district_s row = 1"
    by (auto simp: map_eq_Cons_conv)
  then have "row \<in> set (create_district_summary ten_calls)" by simp
  with delay_percentage_of_rate [of ten_calls] d show ?thesis by blast
qed






section \<open>Chart Builders\<close>

lemma crossed_calls_summary:
  "create_district_summary crossed_calls =
     [\<lparr>council_district_s = 1, avg_response_sec = Some 180, median_response_sec = Some 180,
       total_calls = 1, avg_response_min = 3, total_delayed = 0, delay_rate = 0,
       is_hotspot_s = False, delay_percentage = 0\<rparr>,
      \<lparr>council_district_s = 2, avg_response_sec = Some 120, median_response_sec = Some 120,
       total_calls = 1, avg_response_min = 2, total_delayed = 0, delay_rate = 0,
       is_hotspot_s = True, delay_percentage = 0\<rparr>,
      \<lparr>council_district_s = 3, avg_response_sec = Some 60, median_response_sec = Some 60,
       total_calls = 1, avg_response_min = 1, total_delayed = 0, delay_rate = 0,
       is_hotspot_s = False, delay_percentage = 0\<rparr>]"
  by code_simp

text \<open>
  Claim C8 fails on the code.  For the summary of \<open>crossed_calls\<close> (district 1 at three
  minutes, district 2, the hotspot, at two, district 3 at one) both builders hand
  \<^verbatim>\<open>px.bar\<close> the rows in ascending order of \<open>avg_response_min\<close>, and the figure has
  the trace of the districts that are not hotspots, with the bars of districts 3 and 1,
  before the trace of the hotspot district 2: the bars of the figure have the heights
  1, 3, 2 in the order of its data and 3, 2, 1 in the order of their districts, neither
  of them ascending.
\<close>

theorem bar_chart_order_crossed_districts:
  "map (\<lambda>r. (council_district_s r, avg_response_min r, is_hotspot_s r))
       (sort_values avg_response_min (create_district_summary crossed_calls))
     = [(3, 1, False), (2, 2, True), (1, 3, False)]
   \<and> map (\<lambda>t. (marker_color t, map (\<lambda>b. (bar_x b, bar_y b)) (trace_bars t)))
       (traces (create_choropleth_map (create_district_summary crossed_calls)
                  load_austin_districts))
     = [(''#1f77b4'', [(3, 1), (1, 3)]), (''#d62728'', [(2, 2)])]
   \<and> traces (create_district_bar_chart (create_district_summary crossed_calls))
     = traces (create_choropleth_map (create_district_summary crossed_calls)
                 load_austin_districts)
   \<and> map bar_y (bars_in_data_order
         (create_choropleth_map (create_district_summary crossed_calls) load_austin_districts))
     = [1, 3, 2]
   \<and> map bar_y (bars_by_position
         (create_choropleth_map (create_district_summary crossed_calls) load_austin_districts))
     = [3, 2, 1]
   \<and> \<not> sorted (map bar_y (bars_in_data_order
         (create_choropleth_map (create_district_summary crossed_calls) load_austin_districts)))
   \<and> \<not> sorted (map bar_y (bars_by_position
         (create_choropleth_map (create_district_summary crossed_calls) load_austin_districts)))"
  unfolding crossed_calls_summary
  by (simp add: create_choropleth_map_def create_district_bar_chart_def px_bar_def
      sort_values_def uniq_def color_discrete_map_def bars_in_data_order_def
      bars_by_position_def)

section \<open>Heatmap\<close>

lemma filter_distinct_key:
  "distinct (map f xs) \<Longrightarrow> x \<in> set xs \<Longrightarrow> filter (\<lambda>y. f y = f x) xs = [x]"
proof (induction xs)
  case Nil
  then show ?case by simp
next
  case (Cons a xs)
  show ?case
  proof (cases "x = a")
    case True
    from Cons.prems have "f a \<notin> f ` set xs" by simp
    then have "\<forall>y \<in> set xs. f y \<noteq> f a" by (metis imageI)
    then have "filter (\<lambda>y. f y = f a) xs = []" by (simp add: filter_empty_conv)
    with True show ?thesis by simp
  next
    case False
    with Cons.prems have x: "x \<in> set xs" by simp
    moreover from Cons.prems have "f a \<notin> f ` set xs" by simp
    ultimately have "f a \<noteq> f x" by (metis imageI)
    with Cons.IH x Cons.prems show ?thesis by simp
  qed
qed

lemma pivot_cell_present:
  assumes "distinct (map (\<lambda>r. (district r, hour r)) df)" and "r \<in> set df"
  shows "pivot_cell df (district r) (hour r) = delay_rate_a r"
proof -
  from filter_distinct_key [OF assms]
  have "filter (\<lambda>y. district y = district r \<and> hour y = hour r) df = [r]" by simp
  then show ?thesis by (simp add: pivot_cell_def mean_def)
qed

lemma pivot_cell_absent:
  assumes "\<forall>r \<in> set df. \<not> (district r = d \<and> hour r = h)"
  shows "pivot_cell df d h = 0"
proof -
  from assms have "filter (\<lambda>r. district r = d \<and> hour r = h) df = []"
    by (simp add: filter_empty_conv)
  then show ?thesis by (simp add: pivot_cell_def)
qed

lemma heatmap_pivot:
  "pivot_index (heatmap_data (create_anomaly_heatmap df)) = sort (remdups (map district df))"
  "pivot_columns (heatmap_data (create_anomaly_heatmap df)) = sort (remdups (map hour df))"
  "pivot_values (heatmap_data (create_anomaly_heatmap df)) =
     map (\<lambda>d. map (\<lambda>h. pivot_cell df d h) (sort (remdups (map hour df))))
       (sort (remdups (map district df)))"
  by (simp_all add: create_anomaly_heatmap_def pivot_table_def Let_def)

text \<open>
  Claim C5.  For an anomaly table in which no (district, hour) pair occurs twice, the
  pivot of the heatmap has the observed districts as its rows and the observed hours as
  its columns, one cell for each pair of a row and a column; the cell is the
  \<open>delay_rate\<close> of the input row with that district and hour when there is one, and 0
  when there is none.
\<close>

theorem anomaly_heatmap_cells:
  assumes "distinct (map (\<lambda>r. (district r, hour r)) df)"
  shows "(let p = heatmap_data (create_anomaly_heatmap df)
          in set (pivot_index p) = district ` set df \<and> distinct (pivot_index p)
           \<and> set (pivot_columns p) = hour ` set df \<and> distinct (pivot_columns p)
           \<and> length (pivot_values p) = length (pivot_index p)
           \<and> (\<forall>i < length (pivot_index p).
                length (pivot_values p ! i) = length (pivot_columns p)
                \<and> (\<forall>j < length (pivot_columns p).
                     (\<forall>r \<in> set df.
                        district r = pivot_index p ! i \<and> hour r = pivot_columns p ! j
                        \<longrightarrow> pivot_values p ! i ! j = delay_rate_a r)
                   \<and> ((\<forall>r \<in> set df.
                         \<not> (district r = pivot_index p ! i \<and> hour r = pivot_columns p ! j))
                        \<longrightarrow> pivot_values p ! i ! j = 0))))"
proof -
  let ?idx = "sort (remdups (map district df))"
  let ?cols = "sort (remdups (map hour df))"
  have cell: "map (\<lambda>d. map (\<lambda>h. pivot_cell df d h) ?cols) ?idx ! i ! j
                = pivot_cell df (?idx ! i) (?cols ! j)"
    if "i < length ?idx" "j < length ?cols" for i j
    using that by simp
  have present: "map (\<lambda>d. map (\<lambda>h. pivot_cell df d h) ?cols) ?idx ! i ! j = delay_rate_a r"
    if "i < length ?idx" "j < length ?cols" "r \<in> set df"
      "district r = ?idx ! i \<and> hour r = ?cols ! j" for i j r
    using cell [OF that(1,2)] pivot_cell_present [OF assms that(3)] that(4) by simp
  have absent: "map (\<lambda>d. map (\<lambda>h. pivot_cell df d h) ?cols) ?idx ! i ! j = 0"
    if "i < length ?idx" "j < length ?cols"
      "\<forall>r \<in> set df. \<not> (district r = ?idx ! i \<and> hour r = ?cols ! j)" for i j
    using cell [OF that(1,2)] pivot_cell_absent [OF that(3)] by simp
  show ?thesis
    unfolding Let_def heatmap_pivot
    using present absent by (auto simp del: length_sort)
qed

theorem anomaly_heatmap_cells_witness:
  "distinct (map (\<lambda>r. (district r, hour r)) sample_anomalies)
   \<and> pivot_index (heatmap_data (create_anomaly_heatmap sample_anomalies)) = [1, 2]
   \<and> pivot_columns (heatmap_data (create_anomaly_heatmap sample_anomalies)) = [3, 17]
   \<and> pivot_values (heatmap_data (create_anomaly_heatmap sample_anomalies)) ! 0 ! 1 = 9 / 10
   \<and> pivot_values (heatmap_data (create_anomaly_heatmap sample_anomalies)) ! 1 ! 0 = 0"
proof -
  let ?p = "heatmap_data (create_anomaly_heatmap sample_anomalies)"
  have d: "distinct (map (\<lambda>r. (district r, hour r)) sample_anomalies)"
    by (simp add: sample_anomalies_def)
  have idx: "pivot_index ?p = [1, 2]"
    by (simp add: heatmap_pivot sample_anomalies_def)
  have cols: "pivot_columns ?p = [3, 17]"
    by (simp add: heatmap_pivot sample_anomalies_def)
  note cells = anomaly_heatmap_cells [OF d, unfolded Let_def]
  from cells have at:
    "\<forall>i < length (pivot_index ?p). \<forall>j < length (pivot_columns ?p).
       (\<forall>r \<in> set sample_anomalies.
          district r = pivot_index ?p ! i \<and> hour r = pivot_columns ?p ! j
          \<longrightarrow> pivot_values ?p ! i ! j = delay_rate_a r)
     \<and> ((\<forall>r \<in> set sample_anomalies.
           \<not> (district r = pivot_index ?p ! i \<and> hour r = pivot_columns ?p ! j))
          \<longrightarrow> pivot_values ?p ! i ! j = 0)"
    by blast
  from at [rule_format, of 0 1]
  have "pivot_values ?p ! 0 ! 1 = 9 / 10"
    unfolding idx cols by (simp add: sample_anomalies_def)
  moreover from at [rule_format, of 1 0]
  have "pivot_values ?p ! 1 ! 0 = 0"
    unfolding idx cols by (simp add: sample_anomalies_def)
  ultimately show ?thesis using d idx cols by blast
qed

section \<open>Data Loader\<close>

lemma load_data_cases:
  "(\<exists>df an obj. extract_archive fs = Inr (Readable df) \<and> anomalies_csv fs = Readable an
       \<and> summary_pkl fs = Readable obj \<and> load_data fs = ((Some df, Some an, obj), []))
   \<or> (\<exists>e. load_data fs = load_failed e
        \<and> ((\<forall>df. extract_archive fs \<noteq> Inr (Readable df)) \<or> (\<forall>an. anomalies_csv fs \<noteq> Readable an)
            \<or> (\<forall>obj. summary_pkl fs \<noteq> Readable obj)))"
  by (auto simp: load_data_def read_file_def split: sum.splits artifact.splits)

lemma sample_files_loaded:
  "load_data sample_files = ((Some ten_calls, Some sample_anomalies, Some sample_summary), [])"
  by (simp add: load_data_def sample_files_def extract_archive_def read_file_def)

lemma files_without_anomalies_loaded:
  "load_data files_without_anomalies = load_failed FileNotFoundError"
  by (simp add: load_data_def files_without_anomalies_def sample_files_def extract_archive_def
      read_file_def)

lemma files_without_calls_loaded:
  "load_data files_without_calls = load_failed FileNotFoundError"
  by (simp add: load_data_def files_without_calls_def sample_files_def extract_archive_def
      read_file_def)

lemma files_with_pickled_none_loaded:
  "load_data files_with_pickled_none = ((Some ten_calls, Some sample_anomalies, None), [])"
  by (simp add: load_data_def files_with_pickled_none_def sample_files_def extract_archive_def
      read_file_def)

text \<open>
  Claim C9, as stated, fails.  With a pickle of \<^verbatim>\<open>None\<close> as \<^verbatim>\<open>anomaly_summary.pkl\<close> no read
  raises, and \<open>load_data\<close> returns the call table and the anomaly table with an absent
  summary.
\<close>

theorem pickled_none_counterexample:
  "summary_pkl files_with_pickled_none = Readable None
   \<and> fst (load_data files_with_pickled_none) = (Some ten_calls, Some sample_anomalies, None)"
  by (simp add: files_with_pickled_none_loaded) (simp add: files_with_pickled_none_def)

text \<open>
  Claim C9, amended.  \<open>load_data\<close> returns three absent components when reading any one
  of the three artifacts raises; when none raises it returns the call table, the anomaly
  table and the object that the pickle holds, which is absent for a pickle of
  \<^verbatim>\<open>None\<close>.  So the call table and the anomaly table are present together or absent
  together, and the summary is absent whenever they are.
\<close>

theorem load_data_components:
  "(case fst (load_data fs) of
      (df, an, s) \<Rightarrow> (df = None \<longleftrightarrow> an = None) \<and> (s = None \<or> df \<noteq> None))
   \<and> ((\<forall>df. extract_archive fs \<noteq> Inr (Readable df)) \<or> (\<forall>an. anomalies_csv fs \<noteq> Readable an)
        \<or> (\<forall>obj. summary_pkl fs \<noteq> Readable obj)
      \<longrightarrow> fst (load_data fs) = (None, None, None))
   \<and> (\<forall>df an obj. extract_archive fs = Inr (Readable df) \<and> anomalies_csv fs = Readable an
        \<and> summary_pkl fs = Readable obj
      \<longrightarrow> fst (load_data fs) = (Some df, Some an, obj))"
  using load_data_cases [of fs] by (auto simp: load_failed_def)

theorem load_data_components_witness:
  "anomalies_csv files_without_anomalies = Missing
   \<and> extract_archive files_without_anomalies = Inr (Readable ten_calls)
   \<and> fst (load_data files_without_anomalies) = (None, None, None)
   \<and> fst (load_data sample_files) = (Some ten_calls, Some sample_anomalies, Some sample_summary)"
proof -
  have a: "anomalies_csv files_without_anomalies = Missing"
    by (simp add: files_without_anomalies_def)
  have b: "extract_archive files_without_anomalies = Inr (Readable ten_calls)"
    by (simp add: files_without_anomalies_def sample_files_def extract_archive_def)
  from a have "\<forall>an. anomalies_csv files_without_anomalies \<noteq> Readable an" by simp
  with load_data_components [of files_without_anomalies]
  have c: "fst (load_data files_without_anomalies) = (None, None, None)" by blast
  have "extract_archive sample_files = Inr (Readable ten_calls)"
    "anomalies_csv sample_files = Readable sample_anomalies"
    "summary_pkl sample_files = Readable (Some sample_summary)"
    by (simp_all add: sample_files_def extract_archive_def)
  with load_data_components [of sample_files]
  have "fst (load_data sample_files) = (Some ten_calls, Some sample_anomalies, Some sample_summary)"
    by blast
  with a b c show ?thesis by blast
qed

section \<open>Presentation Controller\<close>

lemma main_unfold:
  "main fs now = main_header @ snd (load_data fs) @ main_body now (fst (load_data fs))"
  by (simp add: main_def split: prod.splits)

lemma main_body_unavailable:
  "main_body now (None, an, s) = [Show Page (St_error unable_to_load)]"
  by (simp add: main_body_def)

lemma load_data_shown:
  "fst (load_data fs) = (Some df, an, s) \<Longrightarrow> snd (load_data fs) = []"
  "fst (load_data fs) = (None, an, s) \<Longrightarrow> \<exists>e. snd (load_data fs) = [Show Page (St_error_loading e)]"
  using load_data_cases [of fs] by (auto simp: load_failed_def)

text \<open>
  Claim C3.  When \<open>load_data\<close> has returned no call table, the rest of the pass shows
  exactly one element, the error of line 160, and stops: the run of \<open>main\<close> is the header,
  the message the loader showed when it failed, and that error.  It has no computation
  of the District Summary, no tabs, nothing in either tab and no footer.
\<close>

theorem primary_table_unavailable:
  assumes "fst (load_data fs) = (None, an, s)"
  shows "main_body now (fst (load_data fs)) = [Show Page (St_error unable_to_load)]
     \<and> (\<exists>e. main fs now
            = main_header @ [Show Page (St_error_loading e), Show Page (St_error unable_to_load)])
     \<and> (\<forall>ds. Summarize ds \<notin> set (main fs now))
     \<and> (\<forall>el. Show Tab1 el \<notin> set (main fs now) \<and> Show Tab2 el \<notin> set (main fs now))
     \<and> (\<forall>names. Show Page (St_tabs names) \<notin> set (main fs now))
     \<and> (\<forall>t. Show Page (St_last_updated t) \<notin> set (main fs now))
     \<and> Show Page (St_markdown data_source) \<notin> set (main fs now)"
proof -
  from load_data_shown(2) [OF assms] obtain e
    where e: "snd (load_data fs) = [Show Page (St_error_loading e)]" ..
  have run: "main fs now
      = main_header @ [Show Page (St_error_loading e), Show Page (St_error unable_to_load)]"
    by (simp add: main_unfold assms e main_body_unavailable)
  have "data_source \<noteq> ''---''"
    "data_source \<noteq> ''*Spatiotemporal analysis of emergency response times across Austin council districts*''"
    by (simp_all add: data_source_def)
  then show ?thesis
    by (simp add: run assms main_body_unavailable main_header_def)
qed

theorem primary_table_unavailable_witness:
  "fst (load_data files_without_calls) = (None, None, None)
   \<and> main_body sample_now (fst (load_data files_without_calls))
       = [Show Page (St_error unable_to_load)]
   \<and> main files_without_calls sample_now
       = main_header @ [Show Page (St_error_loading FileNotFoundError),
                        Show Page (St_error unable_to_load)]
   \<and> Show Page (St_last_updated sample_now) \<notin> set (main files_without_calls sample_now)"
proof -
  have l: "fst (load_data files_without_calls) = (None, None, None)"
    by (simp add: files_without_calls_loaded load_failed_def)
  note t = primary_table_unavailable [OF l, of sample_now]
  have "main files_without_calls sample_now
       = main_header @ [Show Page (St_error_loading FileNotFoundError),
                        Show Page (St_error unable_to_load)]"
    by (simp add: main_unfold files_without_calls_loaded load_failed_def main_body_unavailable)
  with t l show ?thesis by blast
qed

text \<open>The guard of lines 244--246: the tab shows its error and \<^verbatim>\<open>main\<close> returns.\<close>

lemma tab2_guard:
  "dbscan_anomalies = None \<or> anomaly_summary = None \<Longrightarrow>
     tab2 hs dbscan_anomalies anomaly_summary
       = ([Show Tab2 (St_header ''ML-Based Anomaly Detection''),
           Show Tab2 (St_markdown ''*DBSCAN clustering identifies unusual operational patterns*''),
           Show Tab2 (St_error ml_not_available)], Returned)"
  by (cases dbscan_anomalies; cases anomaly_summary) (simp_all add: tab2_def Let_def)

lemma main_body_guard_no_footer:
  assumes "dbscan_anomalies = None \<or> anomaly_summary = None"
  shows "Show Page (St_last_updated t) \<notin> set (main_body now (Some df, dbscan_anomalies, anomaly_summary))"
  by (simp add: main_body_def Let_def tab2_guard [OF assms] sidebar_def tab1_metrics_def
      tab1_chart_def tab1_table_def truthy_def split: sum.splits)

lemma idx_single: "idxmax [x] = Inr 0" "idxmin [x] = Inr 0"
  by (simp_all add: idxmax_def idxmin_def)

lemma ten_calls_summary:
  "create_district_summary ten_calls =
     [\<lparr>council_district_s = 1, avg_response_sec = Some 600, median_response_sec = Some 600,
       total_calls = 6, avg_response_min = 10, total_delayed = 3, delay_rate = 1 / 2,
       is_hotspot_s = True, delay_percentage = 50\<rparr>,
      \<lparr>council_district_s = 2, avg_response_sec = Some 165, median_response_sec = Some 165,
       total_calls = 4, avg_response_min = 11 / 4, total_delayed = 0, delay_rate = 0,
       is_hotspot_s = False, delay_percentage = 0\<rparr>]"
  by code_simp

lemma ten_calls_findings:
  "\<exists>findings. find_key_findings (create_district_summary ten_calls) = Inr findings"
  by (simp add: ten_calls_summary find_key_findings_def idxmax_def idxmin_def)

lemma main_loaded:
  "fst (load_data fs) = (Some df, an, s) \<Longrightarrow> main fs now = main_header @ main_body now (Some df, an, s)"
  by (simp add: main_unfold load_data_shown(1))

lemma main_body_prefix:
  "\<exists>rest. main_body now (Some df, an, s) =
     sidebar df
     @ [Summarize (create_district_summary df),
        Show Page (St_tabs [''Percentile-Based Hotspots'', ''ML Anomaly Detection''])]
     @ tab1_metrics df (create_district_summary df)
     @ tab1_chart (create_district_summary df) load_austin_districts
     @ tab1_table (create_district_summary df)
     @ rest"
  by (simp add: main_body_def Let_def)

lemma mean_of_bool:
  "mean (map (\<lambda>c. of_bool (P c)) xs) = of_nat (length (filter P xs)) / of_nat (length xs)"
  by (simp add: mean_def sum_list_of_bool)

lemma series_mean_of_bool:
  "series_mean (map (\<lambda>c. of_bool (P c)) xs) =
     (if xs = [] then None else Some (of_nat (length (filter P xs)) / of_nat (length xs)))"
  by (simp add: series_mean_def mean_of_bool)

lemma tab1_metrics_values:
  "tab1_metrics df ds =
     [Show Tab1 (St_header ''Percentile-Based Hotspot Analysis''),
      Show Tab1 (St_markdown
        ''*Identifying consistently problematic districts using 90th percentile threshold*''),
      Show Tab1 (St_metric ''Total Calls'' (Count (length df))),
      Show Tab1 (St_metric ''Avg Response Time''
        (Minutes (if ds = [] then None
                  else Some (sum_list (map avg_response_min ds) / of_nat (length ds))))),
      Show Tab1 (St_metric ''Hotspot Districts'' (Count (length (filter is_hotspot_s ds)))),
      Show Tab1 (St_metric ''Overall Delay Rate''
        (Percent (if df = [] then None
                  else Some (of_nat (length (filter delayed df)) / of_nat (length df) * 100)))),
      Show Tab1 (St_markdown ''---'')]"
  by (simp add: tab1_metrics_def Let_def series_mean_of_bool hotspot_list_def)
     (simp add: series_mean_def mean_def)

text \<open>
  Claim C6.  With a call table loaded, the first tab shows the four metrics: the number
  of rows of the table; the mean over the rows of the District Summary of their
  \<open>avg_response_min\<close> (not defined for an empty summary); the number of summary rows
  whose \<open>is_hotspot\<close> is true; and the mean of the delayed flag over the calls times 100
  (not defined for an empty table).
\<close>

theorem tab1_scalar_metrics:
  assumes "fst (load_data fs) = (Some df, an, s)"
  shows "(let ds = create_district_summary df; run = main fs now
          in Show Tab1 (St_metric ''Total Calls'' (Count (length df))) \<in> set run
           \<and> Show Tab1 (St_metric ''Avg Response Time''
                (Minutes (if ds = [] then None
                          else Some (sum_list (map avg_response_min ds) / of_nat (length ds)))))
               \<in> set run
           \<and> Show Tab1 (St_metric ''Hotspot Districts'' (Count (length (filter is_hotspot_s ds))))
               \<in> set run
           \<and> Show Tab1 (St_metric ''Overall Delay Rate''
                (Percent (if df = [] then None
                          else Some (of_nat (length (filter delayed df)) / of_nat (length df) * 100))))
               \<in> set run)"
proof -
  from main_body_prefix [of now df an s] obtain rest where
    "main_body now (Some df, an, s) =
     sidebar df
     @ [Summarize (create_district_summary df),
        Show Page (St_tabs [''Percentile-Based Hotspots'', ''ML Anomaly Detection''])]
     @ tab1_metrics df (create_district_summary df)
     @ tab1_chart (create_district_summary df) load_austin_districts
     @ tab1_table (create_district_summary df)
     @ rest" ..
  then have "set (tab1_metrics df (create_district_summary df)) \<subseteq> set (main fs now)"
    by (simp add: main_loaded [OF assms])  blast
  then show ?thesis
    unfolding Let_def tab1_metrics_values by simp
qed

theorem tab1_scalar_metrics_witness:
  "fst (load_data sample_files) = (Some ten_calls, Some sample_anomalies, Some sample_summary)
   \<and> Show Tab1 (St_metric ''Total Calls'' (Count 10)) \<in> set (main sample_files sample_now)
   \<and> Show Tab1 (St_metric ''Avg Response Time'' (Minutes (Some (51 / 8))))
       \<in> set (main sample_files sample_now)
   \<and> Show Tab1 (St_metric ''Hotspot Districts'' (Count 1)) \<in> set (main sample_files sample_now)
   \<and> Show Tab1 (St_metric ''Overall Delay Rate'' (Percent (Some 30)))
       \<in> set (main sample_files sample_now)
   \<and> series_mean (map response_time_min ten_calls) = Some (71 / 10)"
proof -
  have l: "fst (load_data sample_files)
      = (Some ten_calls, Some sample_anomalies, Some sample_summary)"
    by (simp add: sample_files_loaded)
  have n: "length ten_calls = 10" "length (filter delayed ten_calls) = 3" "ten_calls \<noteq> []"
    by (simp_all add: ten_calls_def sample_call_def)
  have m: "series_mean (map response_time_min ten_calls) = Some (71 / 10)"
    by (simp add: series_mean_def mean_def ten_calls_def sample_call_def)
  from tab1_scalar_metrics [OF l, of sample_now]
  show ?thesis
    unfolding Let_def ten_calls_summary n
    using l m n(3) by simp
qed

lemma expanders_places:
  "x \<in> set (fst (expanders analysis i ids)) \<Longrightarrow> \<exists>el. x = Show Tab2 el"
proof (induction ids arbitrary: i x)
  case Nil
  then show ?case by simp
next
  case (Cons a ids)
  then show ?case
    by (auto split: option.splits prod.splits if_splits) (metis fst_conv)+
qed

lemma expanders_shown:
  "expanders analysis i ids = (shown, e) \<Longrightarrow> x \<in> set shown \<Longrightarrow> \<exists>el. x = Show Tab2 el"
  using expanders_places [of x analysis i ids] by simp

lemma tab2_places:
  "x \<in> set (fst (tab2 hs dbscan_anomalies anomaly_summary)) \<Longrightarrow> \<exists>el. x = Show Tab2 el"
  by (auto simp: tab2_def Let_def tab2_metrics_def tab2_rankings_def
      split: option.splits prod.splits sum.splits dest: expanders_shown)

lemma tab2_shown:
  "tab2 hs dbscan_anomalies anomaly_summary = (shown, out) \<Longrightarrow> x \<in> set shown
     \<Longrightarrow> \<exists>el. x = Show Tab2 el"
  using tab2_places [of x hs dbscan_anomalies anomaly_summary] by simp

text \<open>The Key Findings element is shown once, with the values of lines 223--224.\<close>

lemma key_findings_shown:
  assumes "find_key_findings (create_district_summary df) = Inr findings"
  shows "Show Tab1 (St_key_findings kf) \<in> set (main_body now (Some df, an, s))
           \<longleftrightarrow> kf = findings"
proof -
  obtain shown out
    where t: "tab2 (hotspot_list (create_district_summary df)) an s = (shown, out)"
    by (cases "tab2 (hotspot_list (create_district_summary df)) an s")
  have "Show Tab1 (St_key_findings kf) \<notin> set shown"
    using tab2_shown [OF t] by blast
  then show ?thesis
    by (cases out)
       (simp_all add: main_body_def Let_def assms t sidebar_def tab1_metrics_def tab1_chart_def
          tab1_table_def truthy_def footer_def eq_commute [of findings kf])
qed

lemma single_district_summary:
  fixes df :: "('d::linorder) call list"
  assumes "df \<noteq> []" and "\<forall>r \<in> set df. council_district r = d"
  shows "create_district_summary df = [district_row d (hd df) (tl df)]"
proof -
  from assms have "set (map council_district df) = {d}" by (cases df) auto
  then have "sorted_list_of_set (set (map council_district df)) = [d]" by simp
  then have keys: "sort (remdups (map council_district df)) = [d]"
    by (simp only: sorted_list_of_set_sort_remdups)
  from assms(2) have "group_of df d = df" by (simp add: group_of_def)
  with keys show ?thesis by (simp add: create_district_summary_map)
qed

text \<open>
  Claim C7.  When all rows of a non-empty call table have the same district, the
  District Summary is one row of that district and the Key Findings name that row as
  both the slowest and the fastest district: the same district, the same
  \<open>avg_response_min\<close> and the same \<open>delay_percentage\<close>.
\<close>

theorem single_district_narration:
  fixes df :: "('d::linorder) call list"
  assumes "fst (load_data fs) = (Some df, an, s)"
    and "df \<noteq> []" and "\<forall>r \<in> set df. council_district r = d"
  shows "(\<exists>row hs. create_district_summary df = [row] \<and> council_district_s row = d
            \<and> Show Tab1 (St_key_findings
                 \<lparr>slowest_district = row, fastest_district = row, hotspot_ids = hs\<rparr>)
               \<in> set (main fs now))
     \<and> (\<forall>kf. Show Tab1 (St_key_findings kf) \<in> set (main fs now)
          \<longrightarrow> council_district_s (slowest_district kf) = d
            \<and> council_district_s (fastest_district kf) = d
            \<and> avg_response_min (slowest_district kf) = avg_response_min (fastest_district kf)
            \<and> delay_percentage (slowest_district kf) = delay_percentage (fastest_district kf))"
proof -
  let ?row = "district_row d (hd df) (tl df)"
  let ?kf = "\<lparr>slowest_district = ?row, fastest_district = ?row,
              hotspot_ids = hotspot_list [?row]\<rparr>"
  have ds: "create_district_summary df = [?row]"
    by (rule single_district_summary [OF assms(2,3)])
  then have f: "find_key_findings (create_district_summary df) = Inr ?kf"
    by (simp add: find_key_findings_def idx_single)
  have only: "Show Tab1 (St_key_findings kf) \<in> set (main fs now) \<longleftrightarrow> kf = ?kf" for kf
    using key_findings_shown [OF f, of kf now an s]
    by (auto simp: main_loaded [OF assms(1)] main_header_def)
  have "council_district_s ?row = d" by (simp add: district_row_sel)
  with ds only show ?thesis by auto
qed

theorem single_district_narration_witness:
  "fst (load_data (sample_files\<lparr>csv_file := Readable three_calls\<rparr>))
     = (Some three_calls, Some sample_anomalies, Some sample_summary)
   \<and> three_calls \<noteq> []
   \<and> list_all (\<lambda>r. council_district r = 7) three_calls
   \<and> (\<exists>row hs. create_district_summary three_calls = [row] \<and> council_district_s row = 7
        \<and> Show Tab1 (St_key_findings
             \<lparr>slowest_district = row, fastest_district = row, hotspot_ids = hs\<rparr>)
           \<in> set (main (sample_files\<lparr>csv_file := Readable three_calls\<rparr>) sample_now))"
proof -
  have l: "fst (load_data (sample_files\<lparr>csv_file := Readable three_calls\<rparr>))
     = (Some three_calls, Some sample_anomalies, Some sample_summary)"
    by (simp add: load_data_def sample_files_def extract_archive_def read_file_def)
  have n: "three_calls \<noteq> []" by (simp add: three_calls_def)
  have a: "\<forall>r \<in> set three_calls. council_district r = 7"
    by (simp add: three_calls_def sample_call_def)
  then have a': "list_all (\<lambda>r. council_district r = 7) three_calls"
    by (simp add: list_all_iff)
  from single_district_narration [OF l n a, of sample_now] l n a' show ?thesis by blast
qed

lemma shown_at_append: "shown_at p (xs @ ys) = shown_at p xs @ shown_at p ys"
  by (simp add: shown_at_def)

lemma shown_at_simps:
  "shown_at p [] = []"
  "shown_at p (Show q el # run) = (if q = p then el # shown_at p run else shown_at p run)"
  "shown_at p (Summarize ds # run) = shown_at p run"
  "shown_at p (Uncaught e # run) = shown_at p run"
  by (simp_all add: shown_at_def)

lemma main_body_guard:
  assumes "an = None \<or> s = None"
    and "find_key_findings (create_district_summary df) = Inr findings"
  shows "main_body now (Some df, an, s) =
     sidebar df
     @ [Summarize (create_district_summary df),
        Show Page (St_tabs [''Percentile-Based Hotspots'', ''ML Anomaly Detection''])]
     @ tab1_metrics df (create_district_summary df)
     @ tab1_chart (create_district_summary df) load_austin_districts
     @ tab1_table (create_district_summary df)
     @ [Show Tab1 (St_key_findings findings),
        Show Tab2 (St_header ''ML-Based Anomaly Detection''),
        Show Tab2 (St_markdown ''*DBSCAN clustering identifies unusual operational patterns*''),
        Show Tab2 (St_error ml_not_available)]"
  by (simp add: main_body_def Let_def assms(2) tab2_guard [OF assms(1)])

lemma tab1_blocks_shown:
  "shown_at Tab2 (sidebar df) = []" "shown_at Tab1 (sidebar df) = []"
  "shown_at Tab2 (tab1_metrics df ds) = []"
  "shown_at Tab2 (tab1_chart ds gdf) = []"
  "shown_at Tab2 (tab1_table ds) = []"
  by (simp_all add: sidebar_def tab1_metrics_def tab1_chart_def tab1_table_def Let_def
      shown_at_simps)

lemma main_pickled_none:
  "main files_with_pickled_none sample_now
     = main_header @ main_body sample_now (Some ten_calls, Some sample_anomalies, None)"
  by (simp add: main_unfold files_with_pickled_none_loaded)

text \<open>
  Claim C4 fails on the code.  With the primary CSV readable and
  \<^verbatim>\<open>DBSCAN_Anomalies.csv\<close> missing, \<open>load_data\<close> fails as a whole: the run is the header
  and the two errors, the first tab shows nothing and there is no footer.  The guard of
  lines 244--246 acts when the pickle holds \<^verbatim>\<open>None\<close>: then the second tab shows its
  heading, its subtitle and the error, and the run ends there, without the footer.
\<close>

theorem anomalies_missing_halts_session:
  "extract_archive files_without_anomalies = Inr (Readable ten_calls)
   \<and> anomalies_csv files_without_anomalies = Missing
   \<and> main files_without_anomalies sample_now
       = main_header @ [Show Page (St_error_loading FileNotFoundError),
                        Show Page (St_error unable_to_load)]
   \<and> shown_at Tab1 (main files_without_anomalies sample_now) = []
   \<and> Show Page (St_last_updated sample_now) \<notin> set (main files_without_anomalies sample_now)
   \<and> fst (load_data files_with_pickled_none) = (Some ten_calls, Some sample_anomalies, None)
   \<and> shown_at Tab2 (main files_with_pickled_none sample_now)
       = [St_header ''ML-Based Anomaly Detection'',
          St_markdown ''*DBSCAN clustering identifies unusual operational patterns*'',
          St_error ml_not_available]
   \<and> last (main files_with_pickled_none sample_now) = Show Tab2 (St_error ml_not_available)
   \<and> Show Page (St_last_updated sample_now) \<notin> set (main files_with_pickled_none sample_now)"
proof -
  have "extract_archive files_without_anomalies = Inr (Readable ten_calls)"
    "anomalies_csv files_without_anomalies = Missing"
    by (simp_all add: files_without_anomalies_def sample_files_def extract_archive_def)
  moreover have run: "main files_without_anomalies sample_now
       = main_header @ [Show Page (St_error_loading FileNotFoundError),
                        Show Page (St_error unable_to_load)]"
    by (simp add: main_unfold files_without_anomalies_loaded load_failed_def main_body_unavailable)
  moreover have "shown_at Tab1 (main files_without_anomalies sample_now) = []"
    by (simp add: run main_header_def shown_at_def)
  moreover have "Show Page (St_last_updated sample_now)
       \<notin> set (main files_without_anomalies sample_now)"
    by (simp add: run main_header_def)
  moreover have "fst (load_data files_with_pickled_none)
       = (Some ten_calls, Some sample_anomalies, None)"
    by (simp add: files_with_pickled_none_loaded)
  moreover from ten_calls_findings obtain findings
    where f: "find_key_findings (create_district_summary ten_calls) = Inr findings" ..
  have body: "main_body sample_now (Some ten_calls, Some sample_anomalies, None)
       = sidebar ten_calls
         @ [Summarize (create_district_summary ten_calls),
            Show Page (St_tabs [''Percentile-Based Hotspots'', ''ML Anomaly Detection''])]
         @ tab1_metrics ten_calls (create_district_summary ten_calls)
         @ tab1_chart (create_district_summary ten_calls) load_austin_districts
         @ tab1_table (create_district_summary ten_calls)
         @ [Show Tab1 (St_key_findings findings),
            Show Tab2 (St_header ''ML-Based Anomaly Detection''),
            Show Tab2 (St_markdown ''*DBSCAN clustering identifies unusual operational patterns*''),
            Show Tab2 (St_error ml_not_available)]"
    by (rule main_body_guard [OF _ f]) simp
  have "shown_at Tab2 (main files_with_pickled_none sample_now)
       = [St_header ''ML-Based Anomaly Detection'',
          St_markdown ''*DBSCAN clustering identifies unusual operational patterns*'',
          St_error ml_not_available]"
    by (simp add: main_pickled_none body shown_at_append shown_at_simps tab1_blocks_shown
        main_header_def)
  moreover have "last (main files_with_pickled_none sample_now)
       = Show Tab2 (St_error ml_not_available)"
    by (simp add: main_pickled_none body)
  moreover have "Show Page (St_last_updated sample_now)
       \<notin> set (main_body sample_now (Some ten_calls, Some sample_anomalies, None))"
    by (rule main_body_guard_no_footer) simp
  then have "Show Page (St_last_updated sample_now)
       \<notin> set (main files_with_pickled_none sample_now)"
    by (simp add: main_pickled_none main_header_def)
  ultimately show ?thesis by blast
qed

end
